theory Spec2Isabelle
  imports Complex_Main
begin

section \<open>JavaScript values\<close>

subsection \<open>Numbers: IEEE 754 binary64, round to nearest, ties to even\<close>

text \<open>
  A JavaScript number is a binary64 value. A finite one is modelled by the rational it
  denotes (type \<open>rat\<close>), and every arithmetic operation of the source is the exact
  operation followed by \<open>fl\<close>, the rounding to the nearest binary64 value (ties to the
  even significand), as ECMAScript prescribes for \<open>*\<close> and \<open>-\<close>. A decimal literal
  \<open>0.3\<close> of the source is \<open>fl (3 / 10)\<close>. Subnormals are covered (the exponent is
  held at \<open>-1022\<close>); overflow to an infinity and NaN are outside the model, which is
  therefore used only on magnitudes below \<open>2 ^ 1024\<close>. Comparisons of finite numbers
  are exact, so they are the comparisons of \<open>rat\<close>. \<open>Math.floor\<close> of a finite number
  is an integer, modelled by \<open>int\<close>.
\<close>

type_synonym number = rat

function bitlen :: "int \<Rightarrow> nat" where
  "bitlen n = (if n \<le> 0 then 0 else Suc (bitlen (n div 2)))"
  by pat_completeness auto
termination
  by (relation "measure nat") auto

declare bitlen.simps [simp del]

definition pow2 :: "int \<Rightarrow> rat" where
  "pow2 e = (if 0 \<le> e then 2 ^ nat e else 1 / 2 ^ nat (- e))"

text \<open>\<open>ilog2 x\<close> is the binary exponent of a positive \<open>x\<close>: \<open>2 ^ ilog2 x \<le> x < 2 ^ (ilog2 x + 1)\<close>.\<close>

definition ilog2 :: "rat \<Rightarrow> int" where
  "ilog2 x = (if 1 \<le> x then int (bitlen \<lfloor>x\<rfloor>) - 1
              else (let e0 = - int (bitlen \<lfloor>1 / x\<rfloor>)
                    in if pow2 (e0 + 1) \<le> x then e0 + 1 else e0))"

definition roundTiesToEven :: "rat \<Rightarrow> int" where
  "roundTiesToEven q = (let f = \<lfloor>q\<rfloor>; r = q - of_int f
     in if r < 1 / 2 then f else if 1 / 2 < r then f + 1
        else if even f then f else f + 1)"

definition fl :: "rat \<Rightarrow> number" where
  "fl x = (if x = 0 then 0
           else (let e = max (ilog2 \<bar>x\<bar>) (- 1022); q = pow2 (e - 52)
                 in of_int (roundTiesToEven (x / q)) * q))"

definition Math_floor :: "number \<Rightarrow> int" where
  "Math_floor v = \<lfloor>v\<rfloor>"

subsection \<open>Strings\<close>

text \<open>
  A string is a list of code units; the model covers the code units below 256 (the
  labels of the recognition service and the image references are ASCII).
  \<open>toLowerCase\<close> maps the upper-case letters of that range to their lower-case ones.
\<close>

definition toLowerCaseChar :: "char \<Rightarrow> char" where
  "toLowerCaseChar c = (let n = (of_char c :: nat)
     in if (65 \<le> n \<and> n \<le> 90) \<or> (192 \<le> n \<and> n \<le> 222 \<and> n \<noteq> 215)
        then char_of (n + 32) else c)"

definition toLowerCase :: "string \<Rightarrow> string" where
  "toLowerCase s = map toLowerCaseChar s"

fun startsWith :: "string \<Rightarrow> string \<Rightarrow> bool" where
  "startsWith s [] = True"
| "startsWith [] (k # ks) = False"
| "startsWith (c # cs) (k # ks) = (c = k \<and> startsWith cs ks)"

text \<open>\<open>str_includes s k\<close> is \<open>s.includes(k)\<close>: \<open>k\<close> occurs in \<open>s\<close> as a contiguous substring.\<close>

fun str_includes :: "string \<Rightarrow> string \<Rightarrow> bool" where
  "str_includes [] k = (k = [])"
| "str_includes (c # cs) k = (startsWith (c # cs) k \<or> str_includes cs k)"

text \<open>\<open>split_on sep s\<close> is \<open>s.split(sep)\<close> for a separator of one code unit.\<close>

fun split_on :: "char \<Rightarrow> string \<Rightarrow> string list" where
  "split_on sep [] = [[]]"
| "split_on sep (c # cs) =
     (if c = sep then [] # split_on sep cs
      else (case split_on sep cs of
              [] \<Rightarrow> [[c]]
            | p # ps \<Rightarrow> (c # p) # ps))"

subsection \<open>Exceptions\<close>

text \<open>
  A thrown \<open>Error\<close> is a value carrying its message; a function that may throw returns
  \<open>error + 'a\<close>, with \<open>Inl\<close> for the exception. The messages the source writes in Chinese
  are rendered in English here (the theory is ASCII); the ASCII part \<open>API\<close> of
  the message of a failed call is kept, since the source tests for it.
\<close>

datatype error = Error (message: string)

definition TypeError :: error where
  "TypeError = Error ''TypeError: cannot read properties of undefined''"

section \<open>Data model (src/types/index.ts and the services' interfaces)\<close>

text \<open>
  \<open>ClothingCategory\<close> is a union of six string literals; at run time a category is a
  string, so the model keeps it a string and states membership in the union as a predicate.
\<close>

type_synonym ClothingCategory = string

definition isClothingCategory :: "string \<Rightarrow> bool" where
  "isClothingCategory c =
     (c = ''top'' \<or> c = ''bottom'' \<or> c = ''dress'' \<or> c = ''outerwear''
      \<or> c = ''shoes'' \<or> c = ''accessories'')"

text \<open>\<open>AIRecognitionResult\<close> of the recognition service: a category and a confidence.\<close>

record AIRecognitionResult =
  category :: ClothingCategory
  confidence :: number

record BoundingBox =
  box_x :: int
  box_y :: int
  box_width :: int
  box_height :: int

text \<open>
  \<open>SegmentedClothingItem\<close> has the two fields above and two more, so it is written as
  an extension of \<open>AIRecognitionResult\<close>; the field names are the source's.
\<close>

record SegmentedClothingItem = AIRecognitionResult +
  imageUri :: string
  boundingBox :: BoundingBox

text \<open>
  One entry of \<open>localizedObjectAnnotations\<close>; \<open>normalizedVertices\<close> stands for
  \<open>boundingPoly.normalizedVertices\<close>, a list of points with numeric coordinates.
\<close>

record NormalizedVertex =
  nv_x :: number
  nv_y :: number

record LocalizedObject =
  name :: string
  score :: number
  normalizedVertices :: "NormalizedVertex list"

section \<open>Background removal (src/services/backgroundRemovalService.ts)\<close>

text \<open>
  The collaborators of the service are parameters: the configured key, the HTTP call
  raced against the 30 s timer (\<open>None\<close> when the timer wins), the \<open>FileReader\<close>, the
  clock and the file system. A \<open>Blob\<close> is its bytes, \<open>blob.size\<close> their number.
\<close>

type_synonym Blob = string

record RemoveBgResponse =
  rb_ok :: bool
  rb_status :: string
  rb_json_title :: "error + string option"
  rb_text :: "error + string"
  rb_blob :: "error + Blob"

datatype reader_outcome = ReaderTimeout | ReaderError | LoadEnd "string option"

record FileInfo =
  fi_exists :: bool
  fi_size :: nat

record bg_env =
  REMOVE_BG_API_KEY :: string
  fetch_removebg :: "string \<Rightarrow> string \<Rightarrow> (error + RemoveBgResponse) option"
  readAsDataURL :: "Blob \<Rightarrow> reader_outcome"
  Date_now :: string
  documentDirectory :: string
  writeAsStringAsync :: "string \<Rightarrow> string \<Rightarrow> error + unit"
  getInfoAsync :: "string \<Rightarrow> error + FileInfo"

definition msg_api_failed :: "string \<Rightarrow> string" where
  "msg_api_failed status = ''API call failed: '' @ status"

definition msg_timeout_friendly :: string where
  "msg_timeout_friendly = ''request timed out, check the network connection''"

definition msg_retry_later :: string where
  "msg_retry_later = ''background removal failed, retry later''"

definition msg_bg_failed :: string where
  "msg_bg_failed = ''background removal failed''"

definition msg_bg_key :: string where
  "msg_bg_key = ''configure the Remove.bg API Key in src/config/api.ts''"

text \<open>The promise around \<open>FileReader\<close> (lines 111 to 132).\<close>

definition readBlobAsBase64 :: "bg_env \<Rightarrow> Blob \<Rightarrow> error + string" where
  "readBlobAsBase64 env blob =
     (case readAsDataURL env blob of
        ReaderTimeout \<Rightarrow> Inl (Error ''FileReader timeout'')
      | ReaderError \<Rightarrow> Inl (Error ''FileReader error'')
      | LoadEnd None \<Rightarrow> Inl (Error ''Invalid FileReader result'')
      | LoadEnd (Some result) \<Rightarrow>
          (if result = [] \<or> \<not> str_includes result '','' then Inl (Error ''Invalid FileReader result'')
           else (case split_on (CHR '','') result of
                   p # base64 # ps \<Rightarrow> Inr base64
                 | _ \<Rightarrow> Inl TypeError)))"

text \<open>The \<open>try\<close> block of \<open>removeBackgroundWithRemoveBg\<close> (lines 57 to 149).\<close>

definition removeBgRequest :: "bg_env \<Rightarrow> string \<Rightarrow> error + string" where
  "removeBgRequest env uri =
     (case fetch_removebg env (REMOVE_BG_API_KEY env) uri of
        None \<Rightarrow> Inl (Error ''Request timeout'')
      | Some (Inl e) \<Rightarrow> Inl e
      | Some (Inr response) \<Rightarrow>
          (if \<not> rb_ok response then
             (case rb_json_title response of
                Inr title \<Rightarrow>
                  Inl (Error (case title of
                                None \<Rightarrow> msg_api_failed (rb_status response)
                              | Some t \<Rightarrow> if t = [] then msg_api_failed (rb_status response) else t))
              | Inl jsonError \<Rightarrow>
                  (case rb_text response of
                     Inl e \<Rightarrow> Inl e
                   | Inr errorText \<Rightarrow> Inl (Error (msg_api_failed (rb_status response)))))
           else
             (case rb_blob response of
                Inl e \<Rightarrow> Inl e
              | Inr blob \<Rightarrow>
                  (if length blob = 0 then Inl (Error ''Received empty image data'')
                   else
                     (case readBlobAsBase64 env blob of
                        Inl e \<Rightarrow> Inl e
                      | Inr base64Data \<Rightarrow>
                          (let fileName = ''bg_removed_'' @ Date_now env @ ''.png'';
                               fileUri = documentDirectory env @ fileName
                           in (case writeAsStringAsync env fileUri base64Data of
                                 Inl e \<Rightarrow> Inl e
                               | Inr u \<Rightarrow>
                                   (case getInfoAsync env fileUri of
                                      Inl e \<Rightarrow> Inl e
                                    | Inr fileInfo \<Rightarrow>
                                        (if \<not> fi_exists fileInfo
                                         then Inl (Error ''Failed to save processed image'')
                                         else Inr fileUri)))))))))"

text \<open>The \<open>catch\<close> block (lines 150 to 161) rewrites the error by its message.\<close>

definition friendlyError :: "error \<Rightarrow> error" where
  "friendlyError e =
     (if message e = ''Request timeout'' then Error msg_timeout_friendly
      else if str_includes (message e) ''API'' then e
      else Error msg_retry_later)"

definition bgKeyConfigured :: "bg_env \<Rightarrow> bool" where
  "bgKeyConfigured env =
     (REMOVE_BG_API_KEY env \<noteq> [] \<and> REMOVE_BG_API_KEY env \<noteq> ''YOUR_REMOVE_BG_API_KEY'')"

definition removeBackgroundWithRemoveBg :: "bg_env \<Rightarrow> string \<Rightarrow> error + string" where
  "removeBackgroundWithRemoveBg env uri =
     (if \<not> bgKeyConfigured env then Inl (Error msg_bg_key)
      else (case removeBgRequest env uri of
              Inl e \<Rightarrow> Inl (friendlyError e)
            | Inr fileUri \<Rightarrow> Inr fileUri))"

definition mockBackgroundRemoval :: "string \<Rightarrow> error + string" where
  "mockBackgroundRemoval uri = Inr uri"

definition removeBackground :: "bg_env \<Rightarrow> string \<Rightarrow> error + string" where
  "removeBackground env uri =
     (case (if bgKeyConfigured env then removeBackgroundWithRemoveBg env uri
            else mockBackgroundRemoval uri) of
        Inl e \<Rightarrow> Inl (Error msg_bg_failed)
      | Inr uri \<Rightarrow> Inr uri)"

section \<open>Segmentation (src/services/clothingSegmentationService.ts)\<close>

subsection \<open>Category mapper\<close>

definition excludeKeywords :: "string list" where
  "excludeKeywords =
     [''person'', ''people'', ''human'', ''man'', ''woman'', ''boy'', ''girl'',
      ''face'', ''head'', ''body'', ''hand'', ''leg'', ''arm'', ''foot'']"

text \<open>The keyword table, in the order \<open>Object.entries\<close> enumerates it (insertion order).\<close>

definition categoryMap :: "(string \<times> ClothingCategory) list" where
  "categoryMap =
     [(''shirt'', ''top''), (''top'', ''top''), (''t-shirt'', ''top''), (''blouse'', ''top''),
      (''sweater'', ''top''), (''tank top'', ''top''),
      (''pants'', ''bottom''), (''trousers'', ''bottom''), (''jeans'', ''bottom''),
      (''shorts'', ''bottom''), (''skirt'', ''bottom''),
      (''dress'', ''dress''), (''gown'', ''dress''),
      (''jacket'', ''outerwear''), (''coat'', ''outerwear''), (''blazer'', ''outerwear''),
      (''cardigan'', ''outerwear''),
      (''shoe'', ''shoes''), (''shoes'', ''shoes''), (''boot'', ''shoes''),
      (''sneaker'', ''shoes''), (''sandal'', ''shoes''), (''heel'', ''shoes''),
      (''hat'', ''accessories''), (''bag'', ''accessories''), (''scarf'', ''accessories''),
      (''belt'', ''accessories''), (''sunglasses'', ''accessories''),
      (''watch'', ''accessories'')]"

text \<open>
  Both loops return at the first keyword the lower-cased label contains; \<open>None\<close> is
  the source's \<open>null\<close>.
\<close>

definition mapGoogleLabelToCategory :: "string \<Rightarrow> ClothingCategory option" where
  "mapGoogleLabelToCategory label =
     (let lowerLabel = toLowerCase label
      in (case find (\<lambda>keyword. str_includes lowerLabel keyword) excludeKeywords of
            Some keyword \<Rightarrow> None
          | None \<Rightarrow>
              (case find (\<lambda>entry. str_includes lowerLabel (fst entry)) categoryMap of
                 Some entry \<Rightarrow> Some (snd entry)
               | None \<Rightarrow> None)))"

subsection \<open>Collaborators of the segmentation service\<close>

text \<open>
  \<open>API_CONFIG\<close> (src/config/api.ts is not among the sources), the image manipulator,
  the file system and the HTTP call are parameters. An unset key is the empty string.
  \<open>vr_json\<close> is \<open>result.responses\<close> as parsed: one entry per response, each with its
  optional \<open>localizedObjectAnnotations\<close>.
\<close>

record VisionResponse =
  vr_ok :: bool
  vr_status :: string
  vr_text :: "error + string"
  vr_json :: "error + LocalizedObject list option list"

record Crop =
  originX :: int
  originY :: int
  crop_width :: int
  crop_height :: int

record seg_env =
  GOOGLE_VISION_API_KEY :: string
  manipulateAsync_info :: "string \<Rightarrow> error + number \<times> number"
  readAsStringAsync :: "string \<Rightarrow> error + string"
  fetch_annotate :: "string \<Rightarrow> string \<Rightarrow> error + VisionResponse"
  manipulateAsync_crop :: "string \<Rightarrow> Crop \<Rightarrow> error + string"
  backgroundRemovalService :: bg_env

definition msg_vision_key :: string where
  "msg_vision_key = ''Google Cloud Vision API Key not configured''"

definition msg_no_clothing :: string where
  "msg_no_clothing = ''no clothing items recognised, try another photo''"

definition msg_segmentation_failed :: string where
  "msg_segmentation_failed = ''clothing segmentation failed''"

subsection \<open>The real path\<close>

definition CONFIDENCE_THRESHOLD :: number where
  "CONFIDENCE_THRESHOLD = fl (3 / 10)"

text \<open>
  \<open>vertices[i]\<close> followed by a field access: a \<open>TypeError\<close> when the list is too short.
\<close>

definition vertexAt :: "NormalizedVertex list \<Rightarrow> nat \<Rightarrow> error + NormalizedVertex" where
  "vertexAt vertices i = (if i < length vertices then Inr (vertices ! i) else Inl TypeError)"

text \<open>
  The conversion to pixel coordinates (lines 154 to 157 and 165): \<open>v0\<close> is
  \<open>vertices[0]\<close>, the top left corner, \<open>v2\<close> is \<open>vertices[2]\<close>, the bottom right one.
\<close>

definition pixelBox :: "NormalizedVertex \<Rightarrow> NormalizedVertex \<Rightarrow> number \<Rightarrow> number \<Rightarrow> BoundingBox" where
  "pixelBox v0 v2 imageWidth imageHeight =
     \<lparr>box_x = Math_floor (fl (nv_x v0 * imageWidth)),
      box_y = Math_floor (fl (nv_y v0 * imageHeight)),
      box_width = Math_floor (fl (fl (nv_x v2 - nv_x v0) * imageWidth)),
      box_height = Math_floor (fl (fl (nv_y v2 - nv_y v0) * imageHeight))\<rparr>"

text \<open>
  \<open>cropImageRegion\<close>: the box holds integers already, so its \<open>Math.floor\<close> calls
  change nothing; the manipulator's exception is rethrown.
\<close>

definition cropImageRegion :: "seg_env \<Rightarrow> string \<Rightarrow> BoundingBox \<Rightarrow> error + string" where
  "cropImageRegion env uri box =
     manipulateAsync_crop env uri
       \<lparr>originX = max 0 (box_x box), originY = max 0 (box_y box),
        crop_width = max 1 (box_width box), crop_height = max 1 (box_height box)\<rparr>"

text \<open>
  The loop over the sorted objects (lines 136 to 193), with the list \<open>items\<close> it
  appends to. \<open>continue\<close> is the recursive call on the rest with \<open>items\<close> unchanged.
\<close>

fun processObjects ::
  "seg_env \<Rightarrow> string \<Rightarrow> number \<Rightarrow> number \<Rightarrow> LocalizedObject list
     \<Rightarrow> SegmentedClothingItem list \<Rightarrow> error + SegmentedClothingItem list" where
  "processObjects env uri imageWidth imageHeight [] items = Inr items"
| "processObjects env uri imageWidth imageHeight (obj # rest) items =
     (if score obj < CONFIDENCE_THRESHOLD
      then processObjects env uri imageWidth imageHeight rest items
      else
        (case mapGoogleLabelToCategory (name obj) of
           None \<Rightarrow> processObjects env uri imageWidth imageHeight rest items
         | Some cat \<Rightarrow>
             (case vertexAt (normalizedVertices obj) 0 of
                Inl e \<Rightarrow> Inl e
              | Inr v0 \<Rightarrow>
                  (case vertexAt (normalizedVertices obj) 2 of
                     Inl e \<Rightarrow> Inl e
                   | Inr v2 \<Rightarrow>
                       (let box = pixelBox v0 v2 imageWidth imageHeight
                        in if box_width box \<le> 0 \<or> box_height box \<le> 0
                           then processObjects env uri imageWidth imageHeight rest items
                           else
                             (case cropImageRegion env uri box of
                                Inl cropError \<Rightarrow>
                                  processObjects env uri imageWidth imageHeight rest items
                              | Inr croppedUri \<Rightarrow>
                                  (let transparentUri =
                                         (case removeBackground (backgroundRemovalService env) croppedUri of
                                            Inl bgError \<Rightarrow> croppedUri
                                          | Inr removedUri \<Rightarrow> removedUri)
                                   in processObjects env uri imageWidth imageHeight rest
                                        (items @
                                         [\<lparr>category = cat, confidence = score obj,
                                           imageUri = transparentUri, boundingBox = box\<rparr>]))))))))"

text \<open>
  \<open>sort((a, b) => b.score - a.score)\<close>: a stable sort by descending score (the sign of
  a rounded difference of two finite numbers is the sign of the exact one).
\<close>

definition sortObjects :: "LocalizedObject list \<Rightarrow> LocalizedObject list" where
  "sortObjects objs = sort_key (\<lambda>obj. - score obj) objs"

definition visionKeyConfigured :: "seg_env \<Rightarrow> bool" where
  "visionKeyConfigured env =
     (GOOGLE_VISION_API_KEY env \<noteq> [] \<and>
      GOOGLE_VISION_API_KEY env \<noteq> ''YOUR_GOOGLE_CLOUD_VISION_API_KEY'')"

text \<open>
  Lines 124 to 202: the first response, its objects, the loop and the final test.
\<close>

definition collectItems ::
  "seg_env \<Rightarrow> string \<Rightarrow> number \<Rightarrow> number \<Rightarrow> LocalizedObject list option list
     \<Rightarrow> error + SegmentedClothingItem list" where
  "collectItems env uri imageWidth imageHeight responses =
     (case responses of
        [] \<Rightarrow> Inl TypeError
      | annotations # others \<Rightarrow>
          (case (case annotations of
                   None \<Rightarrow> Inr []
                 | Some objs \<Rightarrow>
                     processObjects env uri imageWidth imageHeight (sortObjects objs) []) of
             Inl e \<Rightarrow> Inl e
           | Inr items \<Rightarrow>
               (if length items = 0 then Inl (Error msg_no_clothing) else Inr items)))"

text \<open>The inner \<open>catch\<close> of \<open>segmentWithGoogleVision\<close> logs and rethrows, so it is left out.\<close>

definition segmentWithGoogleVision :: "seg_env \<Rightarrow> string \<Rightarrow> error + SegmentedClothingItem list" where
  "segmentWithGoogleVision env uri =
     (if \<not> visionKeyConfigured env then Inl (Error msg_vision_key)
      else
        (case manipulateAsync_info env uri of
           Inl e \<Rightarrow> Inl e
         | Inr (imageWidth, imageHeight) \<Rightarrow>
             (case readAsStringAsync env uri of
                Inl e \<Rightarrow> Inl e
              | Inr base64 \<Rightarrow>
                  (case fetch_annotate env (GOOGLE_VISION_API_KEY env) base64 of
                     Inl e \<Rightarrow> Inl e
                   | Inr response \<Rightarrow>
                       (if \<not> vr_ok response then
                          (case vr_text response of
                             Inl e \<Rightarrow> Inl e
                           | Inr errorText \<Rightarrow>
                               Inl (Error (msg_api_failed (vr_status response) @ '' - '' @ errorText)))
                        else
                          (case vr_json response of
                             Inl e \<Rightarrow> Inl e
                           | Inr responses \<Rightarrow>
                               collectItems env uri imageWidth imageHeight responses))))))"

subsection \<open>The mock path and the entry point\<close>

definition mockSegmentation :: "string \<Rightarrow> SegmentedClothingItem list" where
  "mockSegmentation uri =
     [\<lparr>category = ''top'', confidence = fl (95 / 100), imageUri = uri,
       boundingBox = \<lparr>box_x = 100, box_y = 50, box_width = 200, box_height = 150\<rparr>\<rparr>,
      \<lparr>category = ''bottom'', confidence = fl (92 / 100), imageUri = uri,
       boundingBox = \<lparr>box_x = 100, box_y = 200, box_width = 200, box_height = 200\<rparr>\<rparr>]"

text \<open>
  \<open>segmentClothing\<close>: the inner \<open>try\<close> answers every exception of the real path with
  the mock items; the outer \<open>catch\<close> would rename an exception of the inner block.
\<close>

definition segmentClothing :: "seg_env \<Rightarrow> string \<Rightarrow> error + SegmentedClothingItem list" where
  "segmentClothing env uri =
     (case (case segmentWithGoogleVision env uri of
              Inl visionError \<Rightarrow> (Inr (mockSegmentation uri) :: error + SegmentedClothingItem list)
            | Inr items \<Rightarrow> Inr items) of
        Inl e \<Rightarrow> Inl (Error msg_segmentation_failed)
      | Inr items \<Rightarrow> Inr items)"

section \<open>Mock recognition (the AI service, src/unnamed/part_003)\<close>

definition allCategories :: "ClothingCategory list" where
  "allCategories = [''top'', ''bottom'', ''dress'', ''outerwear'', ''shoes'', ''accessories'']"

text \<open>
  \<open>imageUri.split('').reduce((acc, char) => acc + char.charCodeAt(0), 0)\<close>. The sum is
  a natural number; it is exact in binary64 below \<open>2 ^ 53\<close>, which no image reference
  reaches.
\<close>

definition uriHash :: "string \<Rightarrow> nat" where
  "uriHash uri = foldl (\<lambda>acc char. acc + of_char char) 0 uri"

text \<open>The body of the loop of \<open>mockRecognitionMultiple\<close> for the index \<open>i\<close>.\<close>

definition mockResult :: "nat \<Rightarrow> nat \<Rightarrow> AIRecognitionResult" where
  "mockResult hash i =
     (let categoryIndex = (hash + i * 7) mod length allCategories;
          conf = fl (fl (95 / 100) - fl (of_nat i * fl (15 / 100)))
      in \<lparr>category = allCategories ! categoryIndex, confidence = max (fl (1 / 2)) conf\<rparr>)"

definition mockRecognitionMultiple :: "string \<Rightarrow> AIRecognitionResult list" where
  "mockRecognitionMultiple uri =
     (let hash = uriHash uri;
          numResults = hash mod 3 + 1;
          results = map (mockResult hash) [0..<numResults]
      in sort_key (\<lambda>r. - confidence r) results)"

text \<open>
  \<open>recognizeClothingCategories\<close> waits one second and returns the mock result; the
  clock (milliseconds) is the only state it touches.
\<close>

definition recognizeClothingCategories ::
  "string \<Rightarrow> nat \<Rightarrow> (error + AIRecognitionResult list) \<times> nat" where
  "recognizeClothingCategories uri clock = (Inr (mockRecognitionMultiple uri), clock + 1000)"

section \<open>Example inputs\<close>

text \<open>
  Concrete collaborators and service answers, used to run the definitions above. The
  quadrilateral lists its corners as the service does: top left, top right, bottom
  right, bottom left.
\<close>

definition quad :: "rat \<Rightarrow> rat \<Rightarrow> rat \<Rightarrow> rat \<Rightarrow> NormalizedVertex list" where
  "quad x0 y0 x2 y2 =
     [\<lparr>nv_x = fl x0, nv_y = fl y0\<rparr>, \<lparr>nv_x = fl x2, nv_y = fl y0\<rparr>,
      \<lparr>nv_x = fl x2, nv_y = fl y2\<rparr>, \<lparr>nv_x = fl x0, nv_y = fl y2\<rparr>]"

definition detected :: "string \<Rightarrow> rat \<Rightarrow> NormalizedVertex list \<Rightarrow> LocalizedObject" where
  "detected label s vertices = \<lparr>name = label, score = fl s, normalizedVertices = vertices\<rparr>"

text \<open>No Remove.bg key: the background remover takes its mock path.\<close>

definition bg_unconfigured :: bg_env where
  "bg_unconfigured =
     \<lparr>REMOVE_BG_API_KEY = [],
      fetch_removebg = (\<lambda>key uri. None),
      readAsDataURL = (\<lambda>blob. ReaderError),
      Date_now = ''1700000000000'',
      documentDirectory = ''file:///documents/'',
      writeAsStringAsync = (\<lambda>fileUri contents. Inr ()),
      getInfoAsync = (\<lambda>fileUri. Inr \<lparr>fi_exists = False, fi_size = 0\<rparr>)\<rparr>"

text \<open>A configured key and a service that does not answer within the timeout.\<close>

definition bg_timeout :: bg_env where
  "bg_timeout = bg_unconfigured\<lparr>REMOVE_BG_API_KEY := ''rb-key''\<rparr>"

text \<open>
  A configured key, a service that answers with four bytes, a reader that encodes them,
  a write that raises nothing, and a file system that reports the given \<open>FileInfo\<close>.
\<close>

definition bg_answering :: "Blob \<Rightarrow> FileInfo \<Rightarrow> bg_env" where
  "bg_answering blob info =
     \<lparr>REMOVE_BG_API_KEY = ''rb-key'',
      fetch_removebg = (\<lambda>key uri. Some (Inr \<lparr>rb_ok = True, rb_status = ''200'',
         rb_json_title = Inl (Error ''Unexpected token''), rb_text = Inr [],
         rb_blob = Inr blob\<rparr>)),
      readAsDataURL = (\<lambda>blob. LoadEnd (Some ''data:image/png;base64,UE5HIQ=='')),
      Date_now = ''1700000000000'',
      documentDirectory = ''file:///documents/'',
      writeAsStringAsync = (\<lambda>fileUri contents. Inr ()),
      getInfoAsync = (\<lambda>fileUri. Inr info)\<rparr>"

text \<open>
  A configured Vision key, a 1000 by 1000 image, a service that answers 200 with the
  given objects, and a manipulator that names each crop after its origin.
\<close>

definition vision_answering :: "LocalizedObject list \<Rightarrow> bg_env \<Rightarrow> seg_env" where
  "vision_answering objs bg =
     \<lparr>GOOGLE_VISION_API_KEY = ''vision-key'',
      manipulateAsync_info = (\<lambda>uri. Inr (1000, 1000)),
      readAsStringAsync = (\<lambda>uri. Inr ''/9j/4AAQ''),
      fetch_annotate = (\<lambda>key base64. Inr \<lparr>vr_ok = True, vr_status = ''200'',
         vr_text = Inr [], vr_json = Inr [Some objs]\<rparr>),
      manipulateAsync_crop = (\<lambda>uri crop.
         Inr (if originX crop = 100 then ''file:///cache/crop-100.png''
              else ''file:///cache/crop-other.png'')),
      backgroundRemovalService = bg\<rparr>"

definition person_and_sky :: "LocalizedObject list" where
  "person_and_sky =
     [detected ''Person'' (9 / 10) (quad (1 / 10) (1 / 10) (9 / 10) (9 / 10)),
      detected ''Sky'' (8 / 10) (quad 0 0 1 (3 / 10))]"

definition person_and_dress :: "rat \<Rightarrow> LocalizedObject list" where
  "person_and_dress s =
     [detected ''Person'' (9 / 10) (quad (1 / 10) (1 / 10) (9 / 10) (9 / 10)),
      detected ''Red dress'' s (quad (1 / 10) (2 / 10) (6 / 10) (7 / 10))]"

section \<open>The rounding model\<close>

text \<open>
  What makes \<open>fl\<close> the rounding to binary64: \<open>ilog2\<close> is the binary exponent, the
  significand is rounded to an integer within one half, and so \<open>fl x\<close> is an integer
  multiple of \<open>2 ^ (e - 52)\<close> at most half of that spacing away from \<open>x\<close>, where
  \<open>e\<close> is the exponent of \<open>x\<close>, held at \<open>-1022\<close> for the subnormals.
\<close>

lemma bitlen_pos: "0 < n \<Longrightarrow> 0 < bitlen n"
  by (subst bitlen.simps) simp

lemma bitlen_bounds: "0 < n \<Longrightarrow> 2 ^ (bitlen n - 1) \<le> n \<and> n < 2 ^ bitlen n"
proof (induction n rule: bitlen.induct)
  case (1 n)
  show ?case
  proof (cases "n = 1")
    case True
    have "bitlen 1 = 1" by (simp add: bitlen.simps)
    with True show ?thesis by simp
  next
    case False
    with "1.prems" have half: "0 < n div 2" by simp
    from "1.prems" have eq: "bitlen n = Suc (bitlen (n div 2))"
      by (subst bitlen.simps) simp
    from "1.IH" "1.prems" half
    have ih: "2 ^ (bitlen (n div 2) - 1) \<le> n div 2" "n div 2 < 2 ^ bitlen (n div 2)"
      by auto
    from bitlen_pos [OF half] obtain k where k: "bitlen (n div 2) = Suc k"
      by (cases "bitlen (n div 2)") auto
    from ih k have "2 ^ k \<le> n div 2" "n div 2 < 2 ^ Suc k" by auto
    then have "2 ^ Suc k \<le> n" "n < 2 ^ Suc (Suc k)" by auto
    with eq k show ?thesis by simp
  qed
qed

lemma nat_int_succ: "nat (int k + 1) = Suc k"
  by linarith

lemma pow2_neg: "pow2 (- int (Suc k)) = 1 / 2 ^ Suc k"
  by (simp add: pow2_def nat_int_succ)

lemma pow2_pos: "0 < pow2 e"
  by (simp add: pow2_def)

lemma pow2_Suc: "pow2 (e + 1) = 2 * pow2 e"
proof (cases "0 \<le> e")
  case True
  then show ?thesis by (simp add: pow2_def nat_add_distrib)
next
  case False
  then have "e < 0" by simp
  then obtain k where k: "e = - int (Suc k)"
    using negD by blast
  have shift: "- int (Suc k) + 1 = - int k" by simp
  have "pow2 (- int k) = 1 / 2 ^ k"
    by (cases k) (simp_all add: pow2_def nat_int_succ)
  moreover have "pow2 (- int (Suc k)) = 1 / 2 ^ Suc k"
    by (rule pow2_neg)
  ultimately show ?thesis
    unfolding k shift by simp
qed

lemma roundTiesToEven_nearest: "\<bar>of_int (roundTiesToEven q) - q\<bar> \<le> 1 / 2"
proof -
  have "of_int \<lfloor>q\<rfloor> \<le> q" "q < of_int \<lfloor>q\<rfloor> + 1" by linarith+
  then show ?thesis
    by (auto simp: roundTiesToEven_def Let_def)
qed

lemma ilog2_bounds:
  assumes "0 < x"
  shows "pow2 (ilog2 x) \<le> x \<and> x < pow2 (ilog2 x + 1)"
proof (cases "1 \<le> x")
  case True
  then have n: "0 < \<lfloor>x\<rfloor>" by simp
  from bitlen_pos [OF n] obtain k where k: "bitlen \<lfloor>x\<rfloor> = Suc k"
    by (cases "bitlen \<lfloor>x\<rfloor>") auto
  from bitlen_bounds [OF n] k have b: "2 ^ k \<le> \<lfloor>x\<rfloor>" "\<lfloor>x\<rfloor> < 2 ^ Suc k" by auto
  have lo: "(2::rat) ^ k \<le> x"
  proof -
    from b(1) have "(of_int (2 ^ k) :: rat) \<le> of_int \<lfloor>x\<rfloor>" by (simp only: of_int_le_iff)
    also have "\<dots> \<le> x" by simp
    finally show ?thesis by simp
  qed
  have hi: "x < (2::rat) ^ Suc k"
  proof -
    from b(2) have "\<lfloor>x\<rfloor> + 1 \<le> 2 ^ Suc k" by simp
    then have "(of_int (\<lfloor>x\<rfloor> + 1) :: rat) \<le> of_int (2 ^ Suc k)" by (simp only: of_int_le_iff)
    moreover have "x < of_int (\<lfloor>x\<rfloor> + 1)" by linarith
    ultimately show ?thesis by simp
  qed
  from True k have "ilog2 x = int k" by (simp add: ilog2_def)
  with lo hi show ?thesis by (simp add: pow2_def nat_add_distrib)
next
  case False
  with assms have y: "1 < 1 / x" by simp
  then have n: "0 < \<lfloor>1 / x\<rfloor>" by simp
  from bitlen_pos [OF n] obtain k where k: "bitlen \<lfloor>1 / x\<rfloor> = Suc k"
    by (cases "bitlen \<lfloor>1 / x\<rfloor>") auto
  from bitlen_bounds [OF n] k have b: "2 ^ k \<le> \<lfloor>1 / x\<rfloor>" "\<lfloor>1 / x\<rfloor> < 2 ^ Suc k" by auto
  have lo: "(2::rat) ^ k \<le> 1 / x"
  proof -
    from b(1) have "(of_int (2 ^ k) :: rat) \<le> of_int \<lfloor>1 / x\<rfloor>" by (simp only: of_int_le_iff)
    also have "\<dots> \<le> 1 / x" by simp
    finally show ?thesis by simp
  qed
  have hi: "1 / x < (2::rat) ^ Suc k"
  proof -
    from b(2) have "\<lfloor>1 / x\<rfloor> + 1 \<le> 2 ^ Suc k" by simp
    then have "(of_int (\<lfloor>1 / x\<rfloor> + 1) :: rat) \<le> of_int (2 ^ Suc k)" by (simp only: of_int_le_iff)
    moreover have "1 / x < of_int (\<lfloor>1 / x\<rfloor> + 1)" by linarith
    ultimately show ?thesis by simp
  qed
  from lo assms have upper: "x \<le> 1 / 2 ^ k"
    by (simp add: field_simps)
  from hi assms have lower: "1 / 2 ^ Suc k < x"
    by (simp add: field_simps)
  have p0: "pow2 (- int (Suc k)) = 1 / 2 ^ Suc k" by (rule pow2_neg)
  have p1: "pow2 (- int (Suc k) + 1) = 1 / 2 ^ k"
    using pow2_Suc [of "- int (Suc k)"] p0 by simp
  have p2: "pow2 (- int (Suc k) + 1 + 1) = 2 / 2 ^ k"
    using pow2_Suc [of "- int (Suc k) + 1"] p1 by simp
  show ?thesis
  proof (cases "pow2 (- int (Suc k) + 1) \<le> x")
    case True
    with False k have "ilog2 x = - int (Suc k) + 1" by (simp add: ilog2_def Let_def)
    moreover have "(1::rat) / 2 ^ k < 2 / 2 ^ k"
      by (simp add: divide_strict_right_mono)
    with upper have "x < 2 / 2 ^ k" by simp
    ultimately show ?thesis using True p2 by simp
  next
    case c: False
    with False k have "ilog2 x = - int (Suc k)" by (simp add: ilog2_def Let_def)
    with c lower p0 show ?thesis by simp
  qed
qed

lemma fl_error:
  assumes "x \<noteq> 0"
  shows "\<bar>fl x - x\<bar> \<le> pow2 (max (ilog2 \<bar>x\<bar>) (- 1022) - 53)"
proof -
  define e where "e = max (ilog2 \<bar>x\<bar>) (- 1022)"
  define q where "q = pow2 (e - 52)"
  have q: "0 < q" by (simp add: q_def pow2_pos)
  have half: "q / 2 = pow2 (e - 53)"
    using pow2_Suc [of "e - 53"] by (simp add: q_def)
  from assms have "fl x = of_int (roundTiesToEven (x / q)) * q"
    by (simp add: fl_def Let_def e_def q_def)
  then have "fl x - x = (of_int (roundTiesToEven (x / q)) - x / q) * q"
    using q by (simp add: field_simps)
  then have "\<bar>fl x - x\<bar> = \<bar>of_int (roundTiesToEven (x / q)) - x / q\<bar> * q"
    using q by (simp add: abs_mult)
  also have "\<dots> \<le> (1 / 2) * q"
    using roundTiesToEven_nearest [of "x / q"] q by (intro mult_right_mono) auto
  finally show ?thesis using half by (simp add: e_def)
qed

section \<open>Properties of the category mapper\<close>

lemma find_excluded:
  assumes "keyword \<in> set ks" "P keyword"
  shows "find P ks \<noteq> None"
  using assms by (auto simp: find_None_iff)

lemma mapGoogleLabelToCategory_excluded:
  assumes "keyword \<in> set excludeKeywords" "str_includes (toLowerCase label) keyword"
  shows "mapGoogleLabelToCategory label = None"
proof -
  have "find (\<lambda>keyword. str_includes (toLowerCase label) keyword) excludeKeywords \<noteq> None"
    using assms by (rule find_excluded)
  then show ?thesis
    by (auto simp: mapGoogleLabelToCategory_def Let_def split: option.splits)
qed

text \<open>
  Claim C3. A label whose lower-cased form contains one of the fourteen exclusion
  substrings is mapped to \<open>null\<close>, whatever clothing keyword it contains as well. The
  label "Person wearing red shirt" contains both "person" and "shirt" and is mapped to
  \<open>null\<close>.
\<close>

theorem mapGoogleLabelToCategory_exclusion_wins:
  "(keyword \<in> {''person'', ''people'', ''human'', ''man'', ''woman'', ''boy'', ''girl'',
                 ''face'', ''head'', ''body'', ''hand'', ''leg'', ''arm'', ''foot''}
      \<and> str_includes (toLowerCase label) keyword
     \<longrightarrow> mapGoogleLabelToCategory label = None)
   \<and> str_includes (toLowerCase ''Person wearing red shirt'') ''person''
   \<and> str_includes (toLowerCase ''Person wearing red shirt'') ''shirt''
   \<and> mapGoogleLabelToCategory ''Person wearing red shirt'' = None"
proof -
  have general: "mapGoogleLabelToCategory l = None"
    if "k \<in> {''person'', ''people'', ''human'', ''man'', ''woman'', ''boy'', ''girl'',
                 ''face'', ''head'', ''body'', ''hand'', ''leg'', ''arm'', ''foot''}"
       "str_includes (toLowerCase l) k" for k l
  proof -
    from that(1) have "k \<in> set excludeKeywords"
      unfolding excludeKeywords_def by simp
    then show ?thesis using that(2) by (rule mapGoogleLabelToCategory_excluded)
  qed
  have p: "str_includes (toLowerCase ''Person wearing red shirt'') ''person''"
    by code_simp
  have s: "str_includes (toLowerCase ''Person wearing red shirt'') ''shirt''"
    by code_simp
  have "mapGoogleLabelToCategory ''Person wearing red shirt'' = None"
    using general [of "''person''" "''Person wearing red shirt''"] p by simp
  with general p s show ?thesis by blast
qed

theorem mapGoogleLabelToCategory_exclusion_wins_witness:
  "str_includes (toLowerCase ''Woman in a Dress'') ''woman''
   \<and> str_includes (toLowerCase ''Woman in a Dress'') ''dress''
   \<and> mapGoogleLabelToCategory ''Woman in a Dress'' = None"
proof -
  have w: "str_includes (toLowerCase ''Woman in a Dress'') ''woman''"
    by code_simp
  have d: "str_includes (toLowerCase ''Woman in a Dress'') ''dress''"
    by code_simp
  from mapGoogleLabelToCategory_exclusion_wins [of "''woman''" "''Woman in a Dress''"] w d
  show ?thesis by simp
qed

section \<open>Properties of the segmentation loop\<close>


lemma processObjects_not_clothing:
  assumes "\<not> score obj < CONFIDENCE_THRESHOLD" "mapGoogleLabelToCategory (name obj) = None"
  shows "processObjects env uri w h (obj # rest) items = processObjects env uri w h rest items"
  using assms by simp

lemma processObjects_degenerate:
  assumes "\<not> score obj < CONFIDENCE_THRESHOLD"
    and "mapGoogleLabelToCategory (name obj) = Some cat"
    and "vertexAt (normalizedVertices obj) 0 = Inr v0"
    and "vertexAt (normalizedVertices obj) 2 = Inr v2"
    and "box_width (pixelBox v0 v2 w h) \<le> 0 \<or> box_height (pixelBox v0 v2 w h) \<le> 0"
  shows "processObjects env uri w h (obj # rest) items = processObjects env uri w h rest items"
  using assms by (simp add: Let_def)

lemma processObjects_accepted:
  assumes "\<not> score obj < CONFIDENCE_THRESHOLD"
    and "mapGoogleLabelToCategory (name obj) = Some cat"
    and "vertexAt (normalizedVertices obj) 0 = Inr v0"
    and "vertexAt (normalizedVertices obj) 2 = Inr v2"
    and "0 < box_width (pixelBox v0 v2 w h)" "0 < box_height (pixelBox v0 v2 w h)"
    and "cropImageRegion env uri (pixelBox v0 v2 w h) = Inr croppedUri"
  shows "processObjects env uri w h (obj # rest) items =
         processObjects env uri w h rest
           (items @ [\<lparr>category = cat, confidence = score obj,
                      imageUri = (case removeBackground (backgroundRemovalService env) croppedUri of
                                    Inl bgError \<Rightarrow> croppedUri | Inr removedUri \<Rightarrow> removedUri),
                      boundingBox = pixelBox v0 v2 w h\<rparr>])"
  using assms by (simp add: Let_def)

lemma processObjects_extends:
  "processObjects env uri w h objs items = Inr result \<Longrightarrow> \<exists>added. result = items @ added"
proof (induction objs arbitrary: items)
  case Nil
  then show ?case by simp
next
  case (Cons obj rest)
  from Cons.prems show ?case
    by (auto simp: Let_def split: if_splits option.splits sum.splits dest!: Cons.IH)
qed

lemma processObjects_Cons_rest:
  "processObjects env uri w h (obj # rest) items = Inr result
   \<Longrightarrow> \<exists>items'. processObjects env uri w h rest items' = Inr result"
  by (auto simp: Let_def split: if_splits option.splits sum.splits)

lemma processObjects_member:
  assumes "processObjects env uri w h objs items = Inr result"
    and "obj \<in> set objs"
    and "\<not> score obj < CONFIDENCE_THRESHOLD"
    and "mapGoogleLabelToCategory (name obj) = Some cat"
    and "vertexAt (normalizedVertices obj) 0 = Inr v0"
    and "vertexAt (normalizedVertices obj) 2 = Inr v2"
    and "0 < box_width (pixelBox v0 v2 w h)" "0 < box_height (pixelBox v0 v2 w h)"
    and "cropImageRegion env uri (pixelBox v0 v2 w h) = Inr croppedUri"
  shows "\<lparr>category = cat, confidence = score obj,
           imageUri = (case removeBackground (backgroundRemovalService env) croppedUri of
                         Inl bgError \<Rightarrow> croppedUri | Inr removedUri \<Rightarrow> removedUri),
           boundingBox = pixelBox v0 v2 w h\<rparr> \<in> set result"
  using assms(1,2)
proof (induction objs arbitrary: items)
  case Nil
  then show ?case by simp
next
  case (Cons first rest)
  show ?case
  proof (cases "obj = first")
    case True
    have "processObjects env uri w h (obj # rest) items =
          processObjects env uri w h rest
            (items @ [\<lparr>category = cat, confidence = score obj,
               imageUri = (case removeBackground (backgroundRemovalService env) croppedUri of
                             Inl bgError \<Rightarrow> croppedUri | Inr removedUri \<Rightarrow> removedUri),
               boundingBox = pixelBox v0 v2 w h\<rparr>])"
      using assms(3-9) by (rule processObjects_accepted)
    with Cons.prems(1) True obtain added where
      "result = (items @ [\<lparr>category = cat, confidence = score obj,
               imageUri = (case removeBackground (backgroundRemovalService env) croppedUri of
                             Inl bgError \<Rightarrow> croppedUri | Inr removedUri \<Rightarrow> removedUri),
               boundingBox = pixelBox v0 v2 w h\<rparr>]) @ added"
      using processObjects_extends by metis
    then show ?thesis by simp
  next
    case False
    with Cons.prems(2) have "obj \<in> set rest" by simp
    moreover from Cons.prems(1) obtain items' where
      "processObjects env uri w h rest items' = Inr result"
      using processObjects_Cons_rest by blast
    ultimately show ?thesis by (rule Cons.IH [rotated])
  qed
qed

lemma segmentWithGoogleVision_returns:
  assumes "segmentWithGoogleVision env uri = Inr items"
  shows "\<exists>w h base64 response objs others.
           visionKeyConfigured env
           \<and> manipulateAsync_info env uri = Inr (w, h)
           \<and> readAsStringAsync env uri = Inr base64
           \<and> fetch_annotate env (GOOGLE_VISION_API_KEY env) base64 = Inr response
           \<and> vr_ok response
           \<and> vr_json response = Inr (Some objs # others)
           \<and> processObjects env uri w h (sortObjects objs) [] = Inr items
           \<and> items \<noteq> []"
  using assms
  by (auto simp: segmentWithGoogleVision_def collectItems_def
           split: if_splits sum.splits prod.splits list.splits option.splits)

lemma segmentClothing_cases:
  "segmentClothing env uri =
     (case segmentWithGoogleVision env uri of
        Inl visionError \<Rightarrow> Inr (mockSegmentation uri)
      | Inr items \<Rightarrow> Inr items)"
  by (simp add: segmentClothing_def split: sum.splits)

lemma categoryMap_values: "entry \<in> set categoryMap \<Longrightarrow> isClothingCategory (snd entry)"
  by (auto simp: categoryMap_def isClothingCategory_def)

lemma mapGoogleLabelToCategory_codomain:
  assumes "mapGoogleLabelToCategory label = Some cat"
  shows "isClothingCategory cat"
proof -
  from assms obtain entry where
    f: "find (\<lambda>entry. str_includes (toLowerCase label) (fst entry)) categoryMap = Some entry"
    and c: "cat = snd entry"
    by (auto simp: mapGoogleLabelToCategory_def Let_def split: option.splits)
  from f have "entry \<in> set categoryMap"
    by (auto simp: find_Some_iff)
  with c show ?thesis by (simp add: categoryMap_values)
qed

lemma processObjects_Cons_step:
  assumes "processObjects env uri w h (obj # rest) items = Inr result"
  shows "processObjects env uri w h rest items = Inr result
         \<or> (\<exists>cat u box. \<not> score obj < CONFIDENCE_THRESHOLD
               \<and> mapGoogleLabelToCategory (name obj) = Some cat
               \<and> processObjects env uri w h rest
                    (items @ [\<lparr>category = cat, confidence = score obj,
                               imageUri = u, boundingBox = box\<rparr>]) = Inr result)"
  using assms
  by (simp add: Let_def split: if_splits option.splits sum.splits) blast+

lemma processObjects_invariant:
  assumes step: "\<And>(obj :: LocalizedObject) cat u box. \<not> score obj < CONFIDENCE_THRESHOLD
            \<Longrightarrow> mapGoogleLabelToCategory (name obj) = Some cat
            \<Longrightarrow> P \<lparr>category = cat, confidence = score obj, imageUri = u, boundingBox = box\<rparr>"
  shows "processObjects env uri w h objs items = Inr result \<Longrightarrow> list_all P items
         \<Longrightarrow> list_all P result"
proof (induction objs arbitrary: items)
  case Nil
  then show ?case by simp
next
  case (Cons obj rest)
  from processObjects_Cons_step [OF Cons.prems(1)]
  show ?case
  proof
    assume "processObjects env uri w h rest items = Inr result"
    then show ?thesis using Cons.prems(2) by (rule Cons.IH)
  next
    assume "\<exists>cat u box. \<not> score obj < CONFIDENCE_THRESHOLD
               \<and> mapGoogleLabelToCategory (name obj) = Some cat
               \<and> processObjects env uri w h rest
                    (items @ [\<lparr>category = cat, confidence = score obj,
                               imageUri = u, boundingBox = box\<rparr>]) = Inr result"
    then obtain cat u box where ok: "\<not> score obj < CONFIDENCE_THRESHOLD"
      "mapGoogleLabelToCategory (name obj) = Some cat"
      and run: "processObjects env uri w h rest
                    (items @ [\<lparr>category = cat, confidence = score obj,
                               imageUri = u, boundingBox = box\<rparr>]) = Inr result"
      by blast
    have "P \<lparr>category = cat, confidence = score obj, imageUri = u, boundingBox = box\<rparr>"
      using ok by (rule step)
    with Cons.prems(2) have "list_all P (items @ [\<lparr>category = cat, confidence = score obj,
                               imageUri = u, boundingBox = box\<rparr>])"
      by simp
    with run show ?thesis by (rule Cons.IH)
  qed
qed

lemma processObjects_acceptable:
  assumes "processObjects env uri w h objs [] = Inr result"
  shows "list_all (\<lambda>item. isClothingCategory (category item)
                      \<and> CONFIDENCE_THRESHOLD \<le> confidence item) result"
  by (rule processObjects_invariant [OF _ assms])
     (auto dest: mapGoogleLabelToCategory_codomain)

lemma threshold_value: "CONFIDENCE_THRESHOLD = 5404319552844595 / 18014398509481984"
  by code_simp

lemma literal_095: "fl (95 / 100) = 4278419646001971 / 4503599627370496"
  by code_simp

lemma literal_092: "fl (92 / 100) = 8286623314361713 / 9007199254740992"
  by code_simp

lemma mockSegmentation_acceptable:
  "list_all (\<lambda>item. isClothingCategory (category item)
                \<and> CONFIDENCE_THRESHOLD \<le> confidence item) (mockSegmentation uri)"
  unfolding mockSegmentation_def threshold_value literal_095 literal_092
  by (simp add: isClothingCategory_def)

section \<open>The coordinate mapper\<close>

lemma example_box:
  "pixelBox \<lparr>nv_x = fl (1 / 10), nv_y = fl (2 / 10)\<rparr> \<lparr>nv_x = fl (6 / 10), nv_y = fl (7 / 10)\<rparr>
     1000 1000 = \<lparr>box_x = 100, box_y = 200, box_width = 500, box_height = 499\<rparr>"
  by code_simp

lemma example_height_steps:
  "fl (7 / 10) = 3152519739159347 / 4503599627370496
   \<and> fl (2 / 10) = 3602879701896397 / 18014398509481984
   \<and> fl (fl (7 / 10) - fl (2 / 10)) = 9007199254740991 / 18014398509481984
   \<and> fl (fl (fl (7 / 10) - fl (2 / 10)) * 1000) = 8796093022207999 / 17592186044416
   \<and> Math_floor (fl (fl (fl (7 / 10) - fl (2 / 10)) * 1000)) = 499"
  by code_simp

text \<open>
  Claim C2 as stated fails at its own example. With the corners \<open>(0.1, 0.2)\<close> and
  \<open>(0.6, 0.7)\<close> on a 1000 by 1000 image the source computes the height 499, not 500:
  \<open>0.7 - 0.2\<close> is \<open>0.49999999999999994\<close> in binary64, its product with 1000 is
  \<open>499.99999999999994\<close>, and \<open>Math.floor\<close> of that is 499.
\<close>

theorem pixelBox_example_height_499:
  "pixelBox \<lparr>nv_x = fl (1 / 10), nv_y = fl (2 / 10)\<rparr> \<lparr>nv_x = fl (6 / 10), nv_y = fl (7 / 10)\<rparr>
     1000 1000 \<noteq> \<lparr>box_x = 100, box_y = 200, box_width = 500, box_height = 500\<rparr>
   \<and> box_height (pixelBox \<lparr>nv_x = fl (1 / 10), nv_y = fl (2 / 10)\<rparr>
          \<lparr>nv_x = fl (6 / 10), nv_y = fl (7 / 10)\<rparr> 1000 1000) = 499"
  unfolding example_box by simp

text \<open>
  Claim C2, amended. For every pair of corners and all image dimensions the mapper
  computes \<open>x = floor(topLeft.x * imageWidth)\<close>, \<open>y = floor(topLeft.y * imageHeight)\<close>,
  \<open>width = floor((bottomRight.x - topLeft.x) * imageWidth)\<close> and
  \<open>height = floor((bottomRight.y - topLeft.y) * imageHeight)\<close> with every product and
  difference rounded to binary64; the corners \<open>(0.1, 0.2)\<close> and \<open>(0.6, 0.7)\<close> on a
  1000 by 1000 image give \<open>{x: 100, y: 200, width: 500, height: 499}\<close>; and a candidate
  that passed the score and category tests and whose computed width or height is at
  most 0 is skipped: the loop goes on with the remaining candidates and the items
  collected so far.
\<close>

theorem pixelBox_binary64_rejection:
  "pixelBox v0 v2 imageWidth imageHeight =
     \<lparr>box_x = \<lfloor>fl (nv_x v0 * imageWidth)\<rfloor>,
      box_y = \<lfloor>fl (nv_y v0 * imageHeight)\<rfloor>,
      box_width = \<lfloor>fl (fl (nv_x v2 - nv_x v0) * imageWidth)\<rfloor>,
      box_height = \<lfloor>fl (fl (nv_y v2 - nv_y v0) * imageHeight)\<rfloor>\<rparr>
   \<and> pixelBox \<lparr>nv_x = fl (1 / 10), nv_y = fl (2 / 10)\<rparr> \<lparr>nv_x = fl (6 / 10), nv_y = fl (7 / 10)\<rparr>
         1000 1000 = \<lparr>box_x = 100, box_y = 200, box_width = 500, box_height = 499\<rparr>
   \<and> (\<not> score obj < CONFIDENCE_THRESHOLD
        \<and> mapGoogleLabelToCategory (name obj) = Some cat
        \<and> vertexAt (normalizedVertices obj) 0 = Inr v0
        \<and> vertexAt (normalizedVertices obj) 2 = Inr v2
        \<and> (box_width (pixelBox v0 v2 imageWidth imageHeight) \<le> 0
             \<or> box_height (pixelBox v0 v2 imageWidth imageHeight) \<le> 0)
       \<longrightarrow> processObjects env uri imageWidth imageHeight (obj # rest) items
           = processObjects env uri imageWidth imageHeight rest items)"
proof -
  have formula: "pixelBox v0 v2 imageWidth imageHeight =
     \<lparr>box_x = \<lfloor>fl (nv_x v0 * imageWidth)\<rfloor>,
      box_y = \<lfloor>fl (nv_y v0 * imageHeight)\<rfloor>,
      box_width = \<lfloor>fl (fl (nv_x v2 - nv_x v0) * imageWidth)\<rfloor>,
      box_height = \<lfloor>fl (fl (nv_y v2 - nv_y v0) * imageHeight)\<rfloor>\<rparr>"
    by (simp add: pixelBox_def Math_floor_def)
  show ?thesis
    using formula example_box processObjects_degenerate [of obj cat v0 v2 imageWidth imageHeight]
    by blast
qed

text \<open>
  The rejection at the degenerate quadrilateral \<open>(0.5, 0.5)\<close>, \<open>(0.5, 0.9)\<close>: its width
  is 0, the candidate is skipped, and the next candidate is still processed.
\<close>

theorem pixelBox_binary64_rejection_witness:
  "box_width (pixelBox \<lparr>nv_x = fl (1 / 2), nv_y = fl (1 / 2)\<rparr>
                \<lparr>nv_x = fl (1 / 2), nv_y = fl (9 / 10)\<rparr> 1000 1000) = 0
   \<and> processObjects (vision_answering [] bg_unconfigured) ''file:///photo.jpg'' 1000 1000
        (detected ''Red dress'' (9 / 10) (quad (1 / 2) (1 / 2) (1 / 2) (9 / 10))
         # [detected ''Blue jeans'' (8 / 10) (quad (1 / 10) (2 / 10) (6 / 10) (7 / 10))]) []
     = processObjects (vision_answering [] bg_unconfigured) ''file:///photo.jpg'' 1000 1000
        [detected ''Blue jeans'' (8 / 10) (quad (1 / 10) (2 / 10) (6 / 10) (7 / 10))] []
   \<and> processObjects (vision_answering [] bg_unconfigured) ''file:///photo.jpg'' 1000 1000
        [detected ''Blue jeans'' (8 / 10) (quad (1 / 10) (2 / 10) (6 / 10) (7 / 10))] []
     = Inr [\<lparr>category = ''bottom'', confidence = fl (8 / 10),
             imageUri = ''file:///cache/crop-100.png'',
             boundingBox = \<lparr>box_x = 100, box_y = 200, box_width = 500, box_height = 499\<rparr>\<rparr>]"
proof -
  let ?obj = "detected ''Red dress'' (9 / 10) (quad (1 / 2) (1 / 2) (1 / 2) (9 / 10))"
  let ?v0 = "\<lparr>nv_x = fl (1 / 2), nv_y = fl (1 / 2)\<rparr>"
  let ?v2 = "\<lparr>nv_x = fl (1 / 2), nv_y = fl (9 / 10)\<rparr>"
  have h1: "\<not> score ?obj < CONFIDENCE_THRESHOLD" by code_simp
  have h2: "mapGoogleLabelToCategory (name ?obj) = Some ''dress''" by code_simp
  have h3: "vertexAt (normalizedVertices ?obj) 0 = Inr ?v0" by code_simp
  have h4: "vertexAt (normalizedVertices ?obj) 2 = Inr ?v2" by code_simp
  have h5: "box_width (pixelBox ?v0 ?v2 1000 1000) = 0" by code_simp
  have h6: "processObjects (vision_answering [] bg_unconfigured) ''file:///photo.jpg'' 1000 1000
        [detected ''Blue jeans'' (8 / 10) (quad (1 / 10) (2 / 10) (6 / 10) (7 / 10))] []
     = Inr [\<lparr>category = ''bottom'', confidence = fl (8 / 10),
             imageUri = ''file:///cache/crop-100.png'',
             boundingBox = \<lparr>box_x = 100, box_y = 200, box_width = 500, box_height = 499\<rparr>\<rparr>]"
    by code_simp
  from pixelBox_binary64_rejection [of ?v0 ?v2 1000 1000 ?obj "''dress''" "vision_answering [] bg_unconfigured"
              "''file:///photo.jpg''"
              "[detected ''Blue jeans'' (8 / 10) (quad (1 / 10) (2 / 10) (6 / 10) (7 / 10))]" "[]"]
    h1 h2 h3 h4 h5 h6
  show ?thesis by simp
qed

section \<open>The confidence floor\<close>




section \<open>Background-removal failure inside the loop\<close>

lemma sortObjects_set: "set (sortObjects objs) = set objs"
  by (simp add: sortObjects_def)

text \<open>
  Claim C6. A candidate that passed the score, category and geometry tests and was
  cropped is still appended when background removal throws: its \<open>imageUri\<close> is the
  URI of the plain crop. Whenever the real path returns, the item is in the returned
  list, and that list is what \<open>segmentClothing\<close> returns.
\<close>

theorem background_removal_failure_keeps_crop:
  "(\<not> score obj < CONFIDENCE_THRESHOLD
     \<and> mapGoogleLabelToCategory (name obj) = Some cat
     \<and> vertexAt (normalizedVertices obj) 0 = Inr v0
     \<and> vertexAt (normalizedVertices obj) 2 = Inr v2
     \<and> 0 < box_width (pixelBox v0 v2 imageWidth imageHeight)
     \<and> 0 < box_height (pixelBox v0 v2 imageWidth imageHeight)
     \<and> cropImageRegion env uri (pixelBox v0 v2 imageWidth imageHeight) = Inr croppedUri
     \<and> removeBackground (backgroundRemovalService env) croppedUri = Inl bgError
    \<longrightarrow>
      processObjects env uri imageWidth imageHeight (obj # rest) items
        = processObjects env uri imageWidth imageHeight rest
            (items @ [\<lparr>category = cat, confidence = score obj, imageUri = croppedUri,
                       boundingBox = pixelBox v0 v2 imageWidth imageHeight\<rparr>])
      \<and> (manipulateAsync_info env uri = Inr (imageWidth, imageHeight)
           \<and> readAsStringAsync env uri = Inr base64
           \<and> fetch_annotate env (GOOGLE_VISION_API_KEY env) base64 = Inr response
           \<and> vr_json response = Inr (Some objs # others)
           \<and> obj \<in> set objs
           \<and> segmentWithGoogleVision env uri = Inr result
          \<longrightarrow> \<lparr>category = cat, confidence = score obj, imageUri = croppedUri,
                boundingBox = pixelBox v0 v2 imageWidth imageHeight\<rparr> \<in> set result
              \<and> segmentClothing env uri = Inr result))"
proof (intro impI, elim conjE)
  assume c: "\<not> score obj < CONFIDENCE_THRESHOLD"
    "mapGoogleLabelToCategory (name obj) = Some cat"
    "vertexAt (normalizedVertices obj) 0 = Inr v0"
    "vertexAt (normalizedVertices obj) 2 = Inr v2"
    "0 < box_width (pixelBox v0 v2 imageWidth imageHeight)"
    "0 < box_height (pixelBox v0 v2 imageWidth imageHeight)"
    "cropImageRegion env uri (pixelBox v0 v2 imageWidth imageHeight) = Inr croppedUri"
  assume bg: "removeBackground (backgroundRemovalService env) croppedUri = Inl bgError"
  let ?item = "\<lparr>category = cat, confidence = score obj, imageUri = croppedUri,
                 boundingBox = pixelBox v0 v2 imageWidth imageHeight\<rparr>"
  have step: "processObjects env uri imageWidth imageHeight (obj # rest) items
        = processObjects env uri imageWidth imageHeight rest (items @ [?item])"
    using processObjects_accepted [OF c, of rest items] bg by simp
  have final: "?item \<in> set result \<and> segmentClothing env uri = Inr result"
    if env: "manipulateAsync_info env uri = Inr (imageWidth, imageHeight)"
      "readAsStringAsync env uri = Inr base64"
      "fetch_annotate env (GOOGLE_VISION_API_KEY env) base64 = Inr response"
      "vr_json response = Inr (Some objs # others)"
      and mem: "obj \<in> set objs"
      and seg: "segmentWithGoogleVision env uri = Inr result"
  proof -
    from segmentWithGoogleVision_returns [OF seg] env
    have run: "processObjects env uri imageWidth imageHeight (sortObjects objs) [] = Inr result"
      by auto
    from mem have "obj \<in> set (sortObjects objs)"
      by (simp add: sortObjects_set)
    from processObjects_member [OF run this c] bg have "?item \<in> set result"
      by simp
    moreover from seg have "segmentClothing env uri = Inr result"
      by (simp add: segmentClothing_cases)
    ultimately show ?thesis by simp
  qed
  from step final
  show "processObjects env uri imageWidth imageHeight (obj # rest) items
        = processObjects env uri imageWidth imageHeight rest (items @ [?item])
      \<and> (manipulateAsync_info env uri = Inr (imageWidth, imageHeight)
           \<and> readAsStringAsync env uri = Inr base64
           \<and> fetch_annotate env (GOOGLE_VISION_API_KEY env) base64 = Inr response
           \<and> vr_json response = Inr (Some objs # others)
           \<and> obj \<in> set objs
           \<and> segmentWithGoogleVision env uri = Inr result
          \<longrightarrow> ?item \<in> set result \<and> segmentClothing env uri = Inr result)"
    by blast
qed

text \<open>
  A "Red dress" is detected, the crop succeeds and the background remover times out:
  the returned item refers to the crop.
\<close>

theorem background_removal_failure_keeps_crop_witness:
  "removeBackground (backgroundRemovalService (vision_answering (person_and_dress (8 / 10)) bg_timeout))
      ''file:///cache/crop-100.png'' = Inl (Error msg_bg_failed)
   \<and> \<lparr>category = ''dress'', confidence = fl (8 / 10), imageUri = ''file:///cache/crop-100.png'',
        boundingBox = \<lparr>box_x = 100, box_y = 200, box_width = 500, box_height = 499\<rparr>\<rparr>
       \<in> set [\<lparr>category = ''dress'', confidence = fl (8 / 10),
                 imageUri = ''file:///cache/crop-100.png'',
                 boundingBox = \<lparr>box_x = 100, box_y = 200, box_width = 500, box_height = 499\<rparr>\<rparr>]
   \<and> segmentClothing (vision_answering (person_and_dress (8 / 10)) bg_timeout) ''file:///photo.jpg''
       = Inr [\<lparr>category = ''dress'', confidence = fl (8 / 10),
               imageUri = ''file:///cache/crop-100.png'',
               boundingBox = \<lparr>box_x = 100, box_y = 200, box_width = 500, box_height = 499\<rparr>\<rparr>]"
proof -
  let ?env = "vision_answering (person_and_dress (8 / 10)) bg_timeout"
  let ?uri = "''file:///photo.jpg''"
  let ?obj = "detected ''Red dress'' (8 / 10) (quad (1 / 10) (2 / 10) (6 / 10) (7 / 10))"
  let ?v0 = "\<lparr>nv_x = fl (1 / 10), nv_y = fl (2 / 10)\<rparr>"
  let ?v2 = "\<lparr>nv_x = fl (6 / 10), nv_y = fl (7 / 10)\<rparr>"
  let ?response = "\<lparr>vr_ok = True, vr_status = ''200'', vr_text = Inr [],
                     vr_json = Inr [Some (person_and_dress (8 / 10))]\<rparr>"
  let ?result = "[\<lparr>category = ''dress'', confidence = fl (8 / 10),
                    imageUri = ''file:///cache/crop-100.png'',
                    boundingBox = \<lparr>box_x = 100, box_y = 200, box_width = 500, box_height = 499\<rparr>\<rparr>]"
  have h1: "\<not> score ?obj < CONFIDENCE_THRESHOLD" by code_simp
  have h2: "mapGoogleLabelToCategory (name ?obj) = Some ''dress''" by code_simp
  have h3: "vertexAt (normalizedVertices ?obj) 0 = Inr ?v0" by code_simp
  have h4: "vertexAt (normalizedVertices ?obj) 2 = Inr ?v2" by code_simp
  have h5: "0 < box_width (pixelBox ?v0 ?v2 1000 1000)" by code_simp
  have h6: "0 < box_height (pixelBox ?v0 ?v2 1000 1000)" by code_simp
  have h7: "cropImageRegion ?env ?uri (pixelBox ?v0 ?v2 1000 1000)
            = Inr ''file:///cache/crop-100.png''"
    by code_simp
  have h8: "removeBackground (backgroundRemovalService ?env) ''file:///cache/crop-100.png''
            = Inl (Error msg_bg_failed)"
    by code_simp
  have e1: "manipulateAsync_info ?env ?uri = Inr (1000, 1000)" by code_simp
  have e2: "readAsStringAsync ?env ?uri = Inr ''/9j/4AAQ''" by code_simp
  have e3: "fetch_annotate ?env (GOOGLE_VISION_API_KEY ?env) ''/9j/4AAQ'' = Inr ?response"
    by code_simp
  have e4: "vr_json ?response = Inr (Some (person_and_dress (8 / 10)) # [])" by code_simp
  have e5: "?obj \<in> set (person_and_dress (8 / 10))"
    by (simp add: person_and_dress_def)
  have e6: "segmentWithGoogleVision ?env ?uri = Inr ?result" by code_simp
  have box: "pixelBox ?v0 ?v2 1000 1000
             = \<lparr>box_x = 100, box_y = 200, box_width = 500, box_height = 499\<rparr>"
    by (rule example_box)
  have sc: "score ?obj = fl (8 / 10)" by (simp add: detected_def)
  note inst = background_removal_failure_keeps_crop [of ?obj "''dress''" ?v0 ?v2 1000 1000 ?env ?uri
                     "''file:///cache/crop-100.png''" "Error msg_bg_failed" "[]" "[]"
                     "''/9j/4AAQ''" ?response "person_and_dress (8 / 10)" "[]" ?result]
  from inst h1 h2 h3 h4 h5 h6 h7 h8 e1 e2 e3 e4 e5 e6
  have "\<lparr>category = ''dress'', confidence = score ?obj, imageUri = ''file:///cache/crop-100.png'',
          boundingBox = pixelBox ?v0 ?v2 1000 1000\<rparr> \<in> set ?result
        \<and> segmentClothing ?env ?uri = Inr ?result"
    by blast
  then show ?thesis
    unfolding box sc using h8 by blast
qed

section \<open>The invariant of the returned items\<close>

text \<open>
  Claim C10. Every item of a list that \<open>segmentClothing\<close> returns has one of the six
  categories and a confidence of at least the threshold \<open>0.3\<close>: on the real path by
  the score test and the codomain of the category mapper, on the mock path because the
  two fixed confidences are \<open>0.95\<close> and \<open>0.92\<close>.
\<close>

theorem segmentClothing_items_acceptable:
  "(segmentClothing env uri = Inr items
    \<longrightarrow> (\<forall>item \<in> set items.
           isClothingCategory (category item) \<and> CONFIDENCE_THRESHOLD \<le> confidence item))
   \<and> CONFIDENCE_THRESHOLD = fl (3 / 10)
   \<and> map confidence (mockSegmentation uri) = [fl (95 / 100), fl (92 / 100)]"
proof -
  have inv: "\<forall>item \<in> set items.
           isClothingCategory (category item) \<and> CONFIDENCE_THRESHOLD \<le> confidence item"
    if ret: "segmentClothing env uri = Inr items"
  proof (cases "segmentWithGoogleVision env uri")
    case (Inl visionError)
    with ret have "items = mockSegmentation uri"
      by (simp add: segmentClothing_cases)
    then show ?thesis
      using mockSegmentation_acceptable [of uri] by (simp add: list_all_iff)
  next
    case (Inr real)
    with ret have "segmentWithGoogleVision env uri = Inr items"
      by (simp add: segmentClothing_cases)
    from segmentWithGoogleVision_returns [OF this] obtain w h objs where
      "processObjects env uri w h (sortObjects objs) [] = Inr items"
      by blast
    then show ?thesis
      using processObjects_acceptable by (simp add: list_all_iff)
  qed
  have "map confidence (mockSegmentation uri) = [fl (95 / 100), fl (92 / 100)]"
    by (simp add: mockSegmentation_def)
  with inv show ?thesis by (simp add: CONFIDENCE_THRESHOLD_def)
qed

text \<open>The invariant on the list returned for a detected "Red dress" with score 0.8.\<close>

theorem segmentClothing_items_acceptable_witness:
  "segmentClothing (vision_answering (person_and_dress (8 / 10)) bg_unconfigured) ''file:///photo.jpg''
     = Inr [\<lparr>category = ''dress'', confidence = fl (8 / 10),
             imageUri = ''file:///cache/crop-100.png'',
             boundingBox = \<lparr>box_x = 100, box_y = 200, box_width = 500, box_height = 499\<rparr>\<rparr>]
   \<and> isClothingCategory ''dress''
   \<and> CONFIDENCE_THRESHOLD \<le> fl (8 / 10)"
proof -
  let ?env = "vision_answering (person_and_dress (8 / 10)) bg_unconfigured"
  let ?items = "[\<lparr>category = ''dress'', confidence = fl (8 / 10),
             imageUri = ''file:///cache/crop-100.png'',
             boundingBox = \<lparr>box_x = 100, box_y = 200, box_width = 500, box_height = 499\<rparr>\<rparr>]"
  have ret: "segmentClothing ?env ''file:///photo.jpg'' = Inr ?items"
    by code_simp
  from segmentClothing_items_acceptable [of ?env "''file:///photo.jpg''" ?items] ret
  have "\<forall>item \<in> set ?items.
           isClothingCategory (category item) \<and> CONFIDENCE_THRESHOLD \<le> confidence item"
    by blast
  then have "isClothingCategory ''dress'' \<and> CONFIDENCE_THRESHOLD \<le> fl (8 / 10)"
    by simp
  with ret show ?thesis by blast
qed

section \<open>The fallback of the entry point\<close>

lemma segmentWithGoogleVision_no_key:
  "\<not> visionKeyConfigured env \<Longrightarrow> segmentWithGoogleVision env uri = Inl (Error msg_vision_key)"
  by (simp add: segmentWithGoogleVision_def)

lemma segmentWithGoogleVision_fetch_throws:
  assumes "visionKeyConfigured env"
    and "manipulateAsync_info env uri = Inr (w, h)"
    and "readAsStringAsync env uri = Inr base64"
    and "fetch_annotate env (GOOGLE_VISION_API_KEY env) base64 = Inl e"
  shows "segmentWithGoogleVision env uri = Inl e"
  using assms by (simp add: segmentWithGoogleVision_def)

lemma segmentWithGoogleVision_not_ok:
  assumes "visionKeyConfigured env"
    and "manipulateAsync_info env uri = Inr (w, h)"
    and "readAsStringAsync env uri = Inr base64"
    and "fetch_annotate env (GOOGLE_VISION_API_KEY env) base64 = Inr response"
    and "\<not> vr_ok response"
  shows "\<exists>e. segmentWithGoogleVision env uri = Inl e"
  using assms by (simp add: segmentWithGoogleVision_def split: sum.splits)

lemma segmentWithGoogleVision_malformed:
  assumes "visionKeyConfigured env"
    and "manipulateAsync_info env uri = Inr (w, h)"
    and "readAsStringAsync env uri = Inr base64"
    and "fetch_annotate env (GOOGLE_VISION_API_KEY env) base64 = Inr response"
    and "vr_ok response"
    and "vr_json response = Inl e \<or> vr_json response = Inr []"
  shows "\<exists>e'. segmentWithGoogleVision env uri = Inl e'"
  using assms by (auto simp: segmentWithGoogleVision_def collectItems_def)

lemma segmentWithGoogleVision_empty:
  assumes "visionKeyConfigured env"
    and "manipulateAsync_info env uri = Inr (w, h)"
    and "readAsStringAsync env uri = Inr base64"
    and "fetch_annotate env (GOOGLE_VISION_API_KEY env) base64 = Inr response"
    and "vr_ok response"
    and "vr_json response = Inr (Some objs # others)"
    and "processObjects env uri w h (sortObjects objs) [] = Inr []"
  shows "segmentWithGoogleVision env uri = Inl (Error msg_no_clothing)"
  using assms by (simp add: segmentWithGoogleVision_def collectItems_def)

text \<open>
  Claim C5. Whenever the real path throws, \<open>segmentClothing\<close> returns the two mock
  items instead of the exception: a "top" with confidence \<open>0.95\<close> and a "bottom" with
  confidence \<open>0.92\<close>, both referring to the input image. The real path throws when
  the key is missing or the placeholder, when the HTTP call fails, when the status is
  not 2xx, and when the payload cannot be parsed or holds no response.
\<close>

theorem segmentClothing_falls_back_to_mock:
  "(segmentWithGoogleVision env uri = Inl visionError
    \<longrightarrow> segmentClothing env uri =
          Inr [\<lparr>category = ''top'', confidence = fl (95 / 100), imageUri = uri,
                 boundingBox = \<lparr>box_x = 100, box_y = 50, box_width = 200, box_height = 150\<rparr>\<rparr>,
               \<lparr>category = ''bottom'', confidence = fl (92 / 100), imageUri = uri,
                 boundingBox = \<lparr>box_x = 100, box_y = 200, box_width = 200, box_height = 200\<rparr>\<rparr>])
   \<and> (\<not> visionKeyConfigured env \<longrightarrow> (\<exists>e. segmentWithGoogleVision env uri = Inl e))
   \<and> (visionKeyConfigured env
        \<and> manipulateAsync_info env uri = Inr (imageWidth, imageHeight)
        \<and> readAsStringAsync env uri = Inr base64
        \<and> (fetch_annotate env (GOOGLE_VISION_API_KEY env) base64 = Inl networkError
            \<or> fetch_annotate env (GOOGLE_VISION_API_KEY env) base64 = Inr response
               \<and> (\<not> vr_ok response \<or> vr_json response = Inl jsonError \<or> vr_json response = Inr []))
       \<longrightarrow> (\<exists>e. segmentWithGoogleVision env uri = Inl e))"
proof -
  have fallback: "segmentClothing env uri = Inr (mockSegmentation uri)"
    if "segmentWithGoogleVision env uri = Inl visionError"
    using that by (simp add: segmentClothing_cases)
  have key: "\<exists>e. segmentWithGoogleVision env uri = Inl e" if "\<not> visionKeyConfigured env"
    using segmentWithGoogleVision_no_key [OF that] by blast
  have service: "\<exists>e. segmentWithGoogleVision env uri = Inl e"
    if pre: "visionKeyConfigured env"
        "manipulateAsync_info env uri = Inr (imageWidth, imageHeight)"
        "readAsStringAsync env uri = Inr base64"
      and cause: "fetch_annotate env (GOOGLE_VISION_API_KEY env) base64 = Inl networkError
            \<or> fetch_annotate env (GOOGLE_VISION_API_KEY env) base64 = Inr response
               \<and> (\<not> vr_ok response \<or> vr_json response = Inl jsonError \<or> vr_json response = Inr [])"
  proof -
    from cause consider
        (network) "fetch_annotate env (GOOGLE_VISION_API_KEY env) base64 = Inl networkError"
      | (status) "fetch_annotate env (GOOGLE_VISION_API_KEY env) base64 = Inr response"
                 "\<not> vr_ok response"
      | (payload) "fetch_annotate env (GOOGLE_VISION_API_KEY env) base64 = Inr response"
                 "vr_ok response" "vr_json response = Inl jsonError \<or> vr_json response = Inr []"
      by blast
    then show ?thesis
    proof cases
      case network
      with pre show ?thesis using segmentWithGoogleVision_fetch_throws by blast
    next
      case status
      with pre show ?thesis by (rule segmentWithGoogleVision_not_ok)
    next
      case payload
      with pre show ?thesis by (rule segmentWithGoogleVision_malformed)
    qed
  qed
  from fallback key service show ?thesis
    unfolding mockSegmentation_def by blast
qed

text \<open>A network failure of the HTTP call is answered with the two mock items.\<close>

theorem segmentClothing_falls_back_to_mock_witness:
  "segmentWithGoogleVision
     ((vision_answering person_and_sky bg_unconfigured)
        \<lparr>fetch_annotate := (\<lambda>key base64. Inl (Error ''Network request failed''))\<rparr>)
     ''file:///photo.jpg'' = Inl (Error ''Network request failed'')
   \<and> segmentClothing
     ((vision_answering person_and_sky bg_unconfigured)
        \<lparr>fetch_annotate := (\<lambda>key base64. Inl (Error ''Network request failed''))\<rparr>)
     ''file:///photo.jpg'' =
       Inr [\<lparr>category = ''top'', confidence = fl (95 / 100), imageUri = ''file:///photo.jpg'',
              boundingBox = \<lparr>box_x = 100, box_y = 50, box_width = 200, box_height = 150\<rparr>\<rparr>,
            \<lparr>category = ''bottom'', confidence = fl (92 / 100), imageUri = ''file:///photo.jpg'',
              boundingBox = \<lparr>box_x = 100, box_y = 200, box_width = 200, box_height = 200\<rparr>\<rparr>]"
proof -
  let ?env = "(vision_answering person_and_sky bg_unconfigured)
        \<lparr>fetch_annotate := (\<lambda>key base64. Inl (Error ''Network request failed''))\<rparr>"
  have thrown: "segmentWithGoogleVision ?env ''file:///photo.jpg''
                = Inl (Error ''Network request failed'')"
    by code_simp
  from segmentClothing_falls_back_to_mock [of ?env "''file:///photo.jpg''" "Error ''Network request failed''"] thrown
  show ?thesis by blast
qed

text \<open>
  Claim C1, on the code. When the service was reached and answered, and no candidate
  survived the loop, the real path throws its no-results error, and \<open>segmentClothing\<close>
  catches it like every other exception: it returns the two mock items. The claim says
  it fails with the no-results error instead.
\<close>

theorem no_results_answered_with_mock:
  "visionKeyConfigured env
   \<and> manipulateAsync_info env uri = Inr (imageWidth, imageHeight)
   \<and> readAsStringAsync env uri = Inr base64
   \<and> fetch_annotate env (GOOGLE_VISION_API_KEY env) base64 = Inr response
   \<and> vr_ok response
   \<and> vr_json response = Inr (Some objs # others)
   \<and> processObjects env uri imageWidth imageHeight (sortObjects objs) [] = Inr []
   \<longrightarrow> segmentWithGoogleVision env uri = Inl (Error msg_no_clothing)
       \<and> segmentClothing env uri = Inr (mockSegmentation uri)"
proof (intro impI, elim conjE)
  assume pre: "visionKeyConfigured env"
    "manipulateAsync_info env uri = Inr (imageWidth, imageHeight)"
    "readAsStringAsync env uri = Inr base64"
    "fetch_annotate env (GOOGLE_VISION_API_KEY env) base64 = Inr response"
    "vr_ok response"
    "vr_json response = Inr (Some objs # others)"
    "processObjects env uri imageWidth imageHeight (sortObjects objs) [] = Inr []"
  then have "segmentWithGoogleVision env uri = Inl (Error msg_no_clothing)"
    by (rule segmentWithGoogleVision_empty)
  then show "segmentWithGoogleVision env uri = Inl (Error msg_no_clothing)
       \<and> segmentClothing env uri = Inr (mockSegmentation uri)"
    by (simp add: segmentClothing_cases)
qed

text \<open>
  The service answers with a "Person" and a "Sky": the real path throws the no-results
  error and the entry point returns the mock items.
\<close>

theorem no_results_answered_with_mock_witness:
  "processObjects (vision_answering person_and_sky bg_unconfigured) ''file:///photo.jpg''
      1000 1000 (sortObjects person_and_sky) [] = Inr []
   \<and> segmentWithGoogleVision (vision_answering person_and_sky bg_unconfigured)
        ''file:///photo.jpg'' = Inl (Error msg_no_clothing)
   \<and> segmentClothing (vision_answering person_and_sky bg_unconfigured) ''file:///photo.jpg''
       = Inr (mockSegmentation ''file:///photo.jpg'')"
proof -
  let ?env = "vision_answering person_and_sky bg_unconfigured"
  let ?uri = "''file:///photo.jpg''"
  let ?response = "\<lparr>vr_ok = True, vr_status = ''200'', vr_text = Inr [],
                     vr_json = Inr [Some person_and_sky]\<rparr>"
  have h1: "visionKeyConfigured ?env" by code_simp
  have h2: "manipulateAsync_info ?env ?uri = Inr (1000, 1000)" by code_simp
  have h3: "readAsStringAsync ?env ?uri = Inr ''/9j/4AAQ''" by code_simp
  have h4: "fetch_annotate ?env (GOOGLE_VISION_API_KEY ?env) ''/9j/4AAQ'' = Inr ?response"
    by code_simp
  have h5: "vr_ok ?response" by simp
  have h6: "vr_json ?response = Inr (Some person_and_sky # [])" by simp
  have h7: "processObjects ?env ?uri 1000 1000 (sortObjects person_and_sky) [] = Inr []"
    by code_simp
  from no_results_answered_with_mock [of ?env ?uri 1000 1000 "''/9j/4AAQ''" ?response person_and_sky "[]"]
    h1 h2 h3 h4 h5 h6 h7
  show ?thesis by blast
qed

section \<open>What the background remover verifies\<close>

lemma removeBgRequest_returns:
  assumes "removeBgRequest env uri = Inr fileUri"
  shows "\<exists>response blob base64Data fileInfo.
           fetch_removebg env (REMOVE_BG_API_KEY env) uri = Some (Inr response)
           \<and> rb_ok response
           \<and> rb_blob response = Inr blob \<and> 0 < length blob
           \<and> readBlobAsBase64 env blob = Inr base64Data
           \<and> fileUri = documentDirectory env @ ''bg_removed_'' @ Date_now env @ ''.png''
           \<and> writeAsStringAsync env fileUri base64Data = Inr ()
           \<and> getInfoAsync env fileUri = Inr fileInfo \<and> fi_exists fileInfo"
  using assms
  by (auto simp: removeBgRequest_def Let_def
           split: option.splits sum.splits if_splits)

lemma removeBackgroundWithRemoveBg_returns:
  assumes "removeBackgroundWithRemoveBg env uri = Inr fileUri"
  shows "bgKeyConfigured env \<and> removeBgRequest env uri = Inr fileUri"
  using assms
  by (auto simp: removeBackgroundWithRemoveBg_def split: if_splits sum.splits)

lemma removeBackground_configured_fails:
  assumes "bgKeyConfigured env" "\<forall>fileUri. removeBackgroundWithRemoveBg env uri \<noteq> Inr fileUri"
  shows "removeBackground env uri = Inl (Error msg_bg_failed)"
  using assms by (cases "removeBackgroundWithRemoveBg env uri") (auto simp: removeBackground_def)

text \<open>
  Claim C9, amended. When \<open>removeBackgroundWithRemoveBg\<close> returns a reference, the
  service answered 2xx with a body of more than zero bytes, the body was decoded and
  written to the new file \<open>bg_removed_<now>.png\<close> of the document directory, and the
  file system reported that the file exists. An empty body and a missing file are
  failures: the operation throws. The size of the written file is not tested.
\<close>

theorem removeBg_success_checks:
  "(removeBackgroundWithRemoveBg env uri = Inr fileUri
    \<longrightarrow> (\<exists>response blob base64Data fileInfo.
           fetch_removebg env (REMOVE_BG_API_KEY env) uri = Some (Inr response)
           \<and> rb_ok response
           \<and> rb_blob response = Inr blob \<and> 0 < length blob
           \<and> readBlobAsBase64 env blob = Inr base64Data
           \<and> fileUri = documentDirectory env @ ''bg_removed_'' @ Date_now env @ ''.png''
           \<and> writeAsStringAsync env fileUri base64Data = Inr ()
           \<and> getInfoAsync env fileUri = Inr fileInfo \<and> fi_exists fileInfo))
   \<and> (bgKeyConfigured env
        \<and> fetch_removebg env (REMOVE_BG_API_KEY env) uri = Some (Inr ok_response)
        \<and> (rb_blob ok_response = Inr []
            \<or> getInfoAsync env (documentDirectory env @ ''bg_removed_'' @ Date_now env @ ''.png'')
                 = Inr missing \<and> \<not> fi_exists missing)
       \<longrightarrow> (\<exists>e. removeBackgroundWithRemoveBg env uri = Inl e)
           \<and> removeBackground env uri = Inl (Error msg_bg_failed))"
proof -
  have success: "\<exists>response blob base64Data fileInfo.
           fetch_removebg env (REMOVE_BG_API_KEY env) uri = Some (Inr response)
           \<and> rb_ok response
           \<and> rb_blob response = Inr blob \<and> 0 < length blob
           \<and> readBlobAsBase64 env blob = Inr base64Data
           \<and> f = documentDirectory env @ ''bg_removed_'' @ Date_now env @ ''.png''
           \<and> writeAsStringAsync env f base64Data = Inr ()
           \<and> getInfoAsync env f = Inr fileInfo \<and> fi_exists fileInfo"
    if "removeBackgroundWithRemoveBg env uri = Inr f" for f
    using removeBackgroundWithRemoveBg_returns [OF that] removeBgRequest_returns by blast
  have failure: "(\<exists>e. removeBackgroundWithRemoveBg env uri = Inl e)
           \<and> removeBackground env uri = Inl (Error msg_bg_failed)"
    if key: "bgKeyConfigured env"
      and fetch: "fetch_removebg env (REMOVE_BG_API_KEY env) uri = Some (Inr ok_response)"
      and bad: "rb_blob ok_response = Inr []
            \<or> getInfoAsync env (documentDirectory env @ ''bg_removed_'' @ Date_now env @ ''.png'')
                 = Inr missing \<and> \<not> fi_exists missing"
  proof -
    have never: "removeBackgroundWithRemoveBg env uri \<noteq> Inr f" for f
    proof
      assume "removeBackgroundWithRemoveBg env uri = Inr f"
      from success [OF this] fetch bad show False by auto
    qed
    then have "\<exists>e. removeBackgroundWithRemoveBg env uri = Inl e"
      by (cases "removeBackgroundWithRemoveBg env uri") auto
    moreover from key never have "removeBackground env uri = Inl (Error msg_bg_failed)"
      by (simp add: removeBackground_configured_fails)
    ultimately show ?thesis by simp
  qed
  from success failure show ?thesis by blast
qed

text \<open>
  Claim C9 as stated fails: the service answers four bytes, the write raises nothing,
  the file system reports a file that exists with size 0, and the reference of that
  zero-byte artifact is returned as a success.
\<close>

theorem removeBg_returns_zero_byte_artifact:
  "removeBackgroundWithRemoveBg (bg_answering ''PNG!'' \<lparr>fi_exists = True, fi_size = 0\<rparr>)
     ''file:///cache/crop-100.png'' = Inr ''file:///documents/bg_removed_1700000000000.png''
   \<and> getInfoAsync (bg_answering ''PNG!'' \<lparr>fi_exists = True, fi_size = 0\<rparr>)
       ''file:///documents/bg_removed_1700000000000.png'' = Inr \<lparr>fi_exists = True, fi_size = 0\<rparr>
   \<and> removeBackground (bg_answering ''PNG!'' \<lparr>fi_exists = True, fi_size = 0\<rparr>)
     ''file:///cache/crop-100.png'' = Inr ''file:///documents/bg_removed_1700000000000.png''"
  by code_simp

text \<open>
  A four-byte answer written to a file that exists is returned; an empty answer and a
  file that is missing after the write are failures.
\<close>

theorem removeBg_success_checks_witness:
  "removeBackgroundWithRemoveBg (bg_answering ''PNG!'' \<lparr>fi_exists = True, fi_size = 4\<rparr>)
     ''file:///cache/crop-100.png'' = Inr ''file:///documents/bg_removed_1700000000000.png''
   \<and> (\<exists>fileInfo. getInfoAsync (bg_answering ''PNG!'' \<lparr>fi_exists = True, fi_size = 4\<rparr>)
          ''file:///documents/bg_removed_1700000000000.png'' = Inr fileInfo \<and> fi_exists fileInfo)
   \<and> removeBackground (bg_answering [] \<lparr>fi_exists = True, fi_size = 4\<rparr>)
       ''file:///cache/crop-100.png'' = Inl (Error msg_bg_failed)
   \<and> removeBackground (bg_answering ''PNG!'' \<lparr>fi_exists = False, fi_size = 0\<rparr>)
       ''file:///cache/crop-100.png'' = Inl (Error msg_bg_failed)"
proof -
  let ?uri = "''file:///cache/crop-100.png''"
  let ?file = "''file:///documents/bg_removed_1700000000000.png''"
  let ?good = "bg_answering ''PNG!'' \<lparr>fi_exists = True, fi_size = 4\<rparr>"
  let ?empty = "bg_answering [] \<lparr>fi_exists = True, fi_size = 4\<rparr>"
  let ?lost = "bg_answering ''PNG!'' \<lparr>fi_exists = False, fi_size = 0\<rparr>"
  have ret: "removeBackgroundWithRemoveBg ?good ?uri = Inr ?file" by code_simp
  from removeBg_success_checks [of ?good ?uri ?file] ret
  have info: "\<exists>fileInfo. getInfoAsync ?good ?file = Inr fileInfo \<and> fi_exists fileInfo"
    by (simp add: bg_answering_def)
  have e1: "bgKeyConfigured ?empty" by code_simp
  have e2: "fetch_removebg ?empty (REMOVE_BG_API_KEY ?empty) ?uri =
              Some (Inr \<lparr>rb_ok = True, rb_status = ''200'',
                rb_json_title = Inl (Error ''Unexpected token''), rb_text = Inr [],
                rb_blob = Inr []\<rparr>)"
    by (simp add: bg_answering_def)
  from removeBg_success_checks [of ?empty ?uri _ "\<lparr>rb_ok = True, rb_status = ''200'',
                rb_json_title = Inl (Error ''Unexpected token''), rb_text = Inr [],
                rb_blob = Inr []\<rparr>"] e1 e2
  have empty: "removeBackground ?empty ?uri = Inl (Error msg_bg_failed)"
    by simp
  have l1: "bgKeyConfigured ?lost" by code_simp
  have l2: "fetch_removebg ?lost (REMOVE_BG_API_KEY ?lost) ?uri =
              Some (Inr \<lparr>rb_ok = True, rb_status = ''200'',
                rb_json_title = Inl (Error ''Unexpected token''), rb_text = Inr [],
                rb_blob = Inr ''PNG!''\<rparr>)"
    by (simp add: bg_answering_def)
  have l3: "getInfoAsync ?lost (documentDirectory ?lost @ ''bg_removed_'' @ Date_now ?lost @ ''.png'')
            = Inr \<lparr>fi_exists = False, fi_size = 0\<rparr>"
    by (simp add: bg_answering_def)
  have l4: "\<not> fi_exists \<lparr>fi_exists = False, fi_size = 0\<rparr>" by simp
  from removeBg_success_checks [of ?lost ?uri _ "\<lparr>rb_ok = True, rb_status = ''200'',
                rb_json_title = Inl (Error ''Unexpected token''), rb_text = Inr [],
                rb_blob = Inr ''PNG!''\<rparr>" "\<lparr>fi_exists = False, fi_size = 0\<rparr>"] l1 l2 l3 l4
  have lost: "removeBackground ?lost ?uri = Inl (Error msg_bg_failed)"
    by blast
  from ret info empty lost show ?thesis by blast
qed

section \<open>The mock recognition\<close>


















text \<open>
  Claim C7. The mock recognition is deterministic: two consecutive calls for the same
  image reference return the same list (the same entries in the same order), namely
  \<open>mockRecognitionMultiple\<close> of the reference, and the result does not depend on the
  time of the call.
\<close>

theorem mock_recognition_deterministic:
  "(recognizeClothingCategories uri clock = (first, clock1)
    \<and> recognizeClothingCategories uri clock1 = (second, clock2)
    \<longrightarrow> first = second \<and> first = Inr (mockRecognitionMultiple uri))
   \<and> fst (recognizeClothingCategories uri clock') = fst (recognizeClothingCategories uri clock)"
  by (auto simp: recognizeClothingCategories_def)

text \<open>Two consecutive calls for the image reference "b".\<close>

theorem mock_recognition_deterministic_witness:
  "fst (recognizeClothingCategories ''b'' 0) =
     Inr [\<lparr>category = ''dress'', confidence = fl (95 / 100)\<rparr>,
          \<lparr>category = ''outerwear'', confidence = fl (80 / 100) - 1 / 2 ^ 53\<rparr>,
          \<lparr>category = ''shoes'', confidence = fl (65 / 100) - 1 / 2 ^ 53\<rparr>]
   \<and> fst (recognizeClothingCategories ''b'' (snd (recognizeClothingCategories ''b'' 0)))
     = fst (recognizeClothingCategories ''b'' 0)"
proof -
  have r: "fst (recognizeClothingCategories ''b'' 0) =
     Inr [\<lparr>category = ''dress'', confidence = fl (95 / 100)\<rparr>,
          \<lparr>category = ''outerwear'', confidence = fl (80 / 100) - 1 / 2 ^ 53\<rparr>,
          \<lparr>category = ''shoes'', confidence = fl (65 / 100) - 1 / 2 ^ 53\<rparr>]"
    by code_simp
  from mock_recognition_deterministic [of "''b''" 0 "fst (recognizeClothingCategories ''b'' 0)"
              "snd (recognizeClothingCategories ''b'' 0)"
              "fst (recognizeClothingCategories ''b'' (snd (recognizeClothingCategories ''b'' 0)))"
              "snd (recognizeClothingCategories ''b'' (snd (recognizeClothingCategories ''b'' 0)))"]
  have "fst (recognizeClothingCategories ''b'' (snd (recognizeClothingCategories ''b'' 0)))
     = fst (recognizeClothingCategories ''b'' 0)"
    by simp
  with r show ?thesis by blast
qed

section \<open>Further properties of the pipeline\<close>

text \<open>
  \<open>segmentClothing\<close> never throws: whatever its collaborators do, it returns a
  non-empty list, the items of the real path or the two mock items. Its outer
  \<open>catch\<close> is never entered.
\<close>

theorem segmentClothing_never_throws:
  "\<exists>items. segmentClothing env uri = Inr items \<and> items \<noteq> []"
proof (cases "segmentWithGoogleVision env uri")
  case (Inl visionError)
  then show ?thesis
    by (simp add: segmentClothing_cases mockSegmentation_def)
next
  case (Inr items)
  from segmentWithGoogleVision_returns [OF this] have "items \<noteq> []" by blast
  with Inr show ?thesis
    by (simp add: segmentClothing_cases)
qed

text \<open>
  The category mapper on three labels: a shoe, a gown and an object that is no clothing.
\<close>

theorem mapGoogleLabelToCategory_examples:
  "mapGoogleLabelToCategory ''Running shoe'' = Some ''shoes''
   \<and> mapGoogleLabelToCategory ''Evening gown'' = Some ''dress''
   \<and> mapGoogleLabelToCategory ''Umbrella'' = None"
  by code_simp

text \<open>
  End to end: the service detects a "Person" (score 0.9) and a "Red dress" (score 0.8)
  with a valid quadrilateral; exactly one item is returned, a "dress" with confidence 0.8.
\<close>

theorem person_and_dress_end_to_end:
  "segmentClothing (vision_answering (person_and_dress (8 / 10)) bg_unconfigured) ''file:///photo.jpg''
     = Inr [\<lparr>category = ''dress'', confidence = fl (8 / 10),
             imageUri = ''file:///cache/crop-100.png'',
             boundingBox = \<lparr>box_x = 100, box_y = 200, box_width = 500, box_height = 499\<rparr>\<rparr>]"
  by code_simp

text \<open>
  Without a Remove.bg key, or with the placeholder key, \<open>removeBackground\<close> returns
  the reference it was given.
\<close>

theorem removeBackground_unconfigured_identity:
  "removeBackground (env\<lparr>REMOVE_BG_API_KEY := []\<rparr>) uri = Inr uri
   \<and> removeBackground (env\<lparr>REMOVE_BG_API_KEY := ''YOUR_REMOVE_BG_API_KEY''\<rparr>) uri = Inr uri"
  by (simp add: removeBackground_def bgKeyConfigured_def mockBackgroundRemoval_def)

lemma processObjects_descending:
  "processObjects env uri w h objs items = Inr result
   \<Longrightarrow> sorted_wrt (\<lambda>a b. b \<le> a) (map confidence items @ map score objs)
   \<Longrightarrow> sorted_wrt (\<lambda>a b. b \<le> a) (map confidence result)"
proof (induction objs arbitrary: items)
  case Nil
  then show ?case by simp
next
  case (Cons obj rest)
  from processObjects_Cons_step [OF Cons.prems(1)]
  show ?case
  proof
    assume run: "processObjects env uri w h rest items = Inr result"
    from Cons.prems(2) have "sorted_wrt (\<lambda>a b. b \<le> a) (map confidence items @ map score rest)"
      by (auto simp: sorted_wrt_append)
    with run show ?thesis by (rule Cons.IH)
  next
    assume "\<exists>cat u box. \<not> score obj < CONFIDENCE_THRESHOLD
               \<and> mapGoogleLabelToCategory (name obj) = Some cat
               \<and> processObjects env uri w h rest
                    (items @ [\<lparr>category = cat, confidence = score obj,
                               imageUri = u, boundingBox = box\<rparr>]) = Inr result"
    then obtain cat u box where run: "processObjects env uri w h rest
                    (items @ [\<lparr>category = cat, confidence = score obj,
                               imageUri = u, boundingBox = box\<rparr>]) = Inr result"
      by blast
    from Cons.prems(2) have "sorted_wrt (\<lambda>a b. b \<le> a)
       (map confidence (items @ [\<lparr>category = cat, confidence = score obj,
                               imageUri = u, boundingBox = box\<rparr>]) @ map score rest)"
      by simp
    with run show ?thesis by (rule Cons.IH)
  qed
qed

lemma sortObjects_descending: "sorted_wrt (\<lambda>a b. b \<le> a) (map score (sortObjects objs))"
proof -
  have "sorted (map (\<lambda>obj. - score obj) (sortObjects objs))"
    by (simp add: sortObjects_def)
  then have "sorted_wrt (\<lambda>a b. - score a \<le> - score b) (sortObjects objs)"
    by (simp add: sorted_map)
  then show ?thesis
    by (simp add: sorted_wrt_map)
qed

text \<open>
  The items the real path returns are in descending order of confidence: the loop
  appends in the order of the sorted candidates.
\<close>

theorem segmentation_result_descending:
  "segmentWithGoogleVision env uri = Inr items
   \<longrightarrow> sorted_wrt (\<lambda>a b. confidence b \<le> confidence a) items
       \<and> segmentClothing env uri = Inr items"
proof
  assume seg: "segmentWithGoogleVision env uri = Inr items"
  from segmentWithGoogleVision_returns [OF seg] obtain w h objs where
    run: "processObjects env uri w h (sortObjects objs) [] = Inr items"
    by blast
  have "sorted_wrt (\<lambda>a b. b \<le> a) (map confidence items)"
    using run sortObjects_descending [of objs] by (intro processObjects_descending) auto
  then have "sorted_wrt (\<lambda>a b. confidence b \<le> confidence a) items"
    by (simp add: sorted_wrt_map)
  moreover from seg have "segmentClothing env uri = Inr items"
    by (simp add: segmentClothing_cases)
  ultimately show "sorted_wrt (\<lambda>a b. confidence b \<le> confidence a) items
       \<and> segmentClothing env uri = Inr items" by simp
qed

text \<open>
  Two garments detected in ascending order of score are returned in descending order.
\<close>

theorem segmentation_result_descending_witness:
  "segmentWithGoogleVision
     (vision_answering
        [detected ''Jeans'' (5 / 10) (quad (2 / 10) (5 / 10) (8 / 10) 1),
         detected ''Red dress'' (8 / 10) (quad (1 / 10) (2 / 10) (6 / 10) (7 / 10))]
        bg_unconfigured) ''file:///photo.jpg''
   = Inr [\<lparr>category = ''dress'', confidence = fl (8 / 10),
           imageUri = ''file:///cache/crop-100.png'',
           boundingBox = \<lparr>box_x = 100, box_y = 200, box_width = 500, box_height = 499\<rparr>\<rparr>,
          \<lparr>category = ''bottom'', confidence = fl (5 / 10),
           imageUri = ''file:///cache/crop-other.png'',
           boundingBox = \<lparr>box_x = 200, box_y = 500, box_width = 600, box_height = 500\<rparr>\<rparr>]
   \<and> fl (5 / 10) \<le> fl (8 / 10)"
proof -
  let ?env = "vision_answering
        [detected ''Jeans'' (5 / 10) (quad (2 / 10) (5 / 10) (8 / 10) 1),
         detected ''Red dress'' (8 / 10) (quad (1 / 10) (2 / 10) (6 / 10) (7 / 10))]
        bg_unconfigured"
  let ?items = "[\<lparr>category = ''dress'', confidence = fl (8 / 10),
           imageUri = ''file:///cache/crop-100.png'',
           boundingBox = \<lparr>box_x = 100, box_y = 200, box_width = 500, box_height = 499\<rparr>\<rparr>,
          \<lparr>category = ''bottom'', confidence = fl (5 / 10),
           imageUri = ''file:///cache/crop-other.png'',
           boundingBox = \<lparr>box_x = 200, box_y = 500, box_width = 600, box_height = 500\<rparr>\<rparr>]"
  have seg: "segmentWithGoogleVision ?env ''file:///photo.jpg'' = Inr ?items"
    by code_simp
  from segmentation_result_descending [of ?env "''file:///photo.jpg''" ?items] seg
  have "sorted_wrt (\<lambda>a b. confidence b \<le> confidence a) ?items"
    by blast
  then have "fl (5 / 10) \<le> fl (8 / 10)" by simp
  with seg show ?thesis by blast
qed

end
